theory Spec2Isabelle
  imports Complex_Main
begin

section \<open>Multi-crop augmentation: \<open>DataAugmentationDINO\<close>\<close>

text \<open>
  The steps of a torchvision \<open>Compose\<close> pipeline, as \<open>DataAugmentationDINO.__init__\<close>
  builds them. \<open>RandomResizedCrop\<close> carries its target size and its scale range (the
  interpolation is bicubic in all three pipelines); the scale range is passed through
  untouched, so it stays a type parameter. \<open>Normalize\<close> stands for the pipeline
  \<open>Compose([ToTensor(), Normalize(mean, std)])\<close> that \<open>__init__\<close> binds to \<open>normalize\<close>.
\<close>

datatype 's transform =
    RandomResizedCrop nat 's
  | Flip_and_color_jitter
  | Augmix_aug
  | Augmix_aug1
  | Augmix_aug2
  | Normalize

record 's DataAugmentationDINO =
  global_transfo1 :: "'s transform list"
  global_transfo2 :: "'s transform list"
  local_crops_number :: int
  local_transfo :: "'s transform list"

text \<open>
  \<open>__init__(self, global_crops_scale, local_crops_scale, local_crops_number)\<close>. The
  constructor reads the module-level \<open>args.augmix\<close>; it is the first argument here.
\<close>

definition DataAugmentationDINO_init ::
  "bool \<Rightarrow> 's \<Rightarrow> 's \<Rightarrow> int \<Rightarrow> 's DataAugmentationDINO" where
  "DataAugmentationDINO_init augmix global_crops_scale local_crops_scale n =
     \<lparr> global_transfo1 =
         [RandomResizedCrop 224 global_crops_scale,
          if augmix then Augmix_aug1 else Flip_and_color_jitter,
          Normalize],
       global_transfo2 =
         [RandomResizedCrop 224 global_crops_scale,
          if augmix then Augmix_aug2 else Flip_and_color_jitter,
          Normalize],
       local_crops_number = n,
       local_transfo =
         [RandomResizedCrop 96 local_crops_scale,
          if augmix then Augmix_aug else Flip_and_color_jitter,
          Normalize] \<rparr>"

text \<open>
  The loop \<open>for i in range(self.local_crops_number): crops.append(self.local_transfo(image))\<close>.
  Applying a pipeline is torchvision's business: \<open>f\<close> takes the image and the state of the
  random generators and returns the view and the generators' next state.
\<close>

fun local_crops ::
  "('img \<Rightarrow> 'rng \<Rightarrow> 'view \<times> 'rng) \<Rightarrow> 'img \<Rightarrow> nat \<Rightarrow> 'view list \<Rightarrow> 'rng \<Rightarrow> 'view list \<times> 'rng"
where
  "local_crops f img 0 crops r = (crops, r)"
| "local_crops f img (Suc n) crops r =
     (case f img r of (v, r') \<Rightarrow> local_crops f img n (crops @ [v]) r')"

text \<open>
  \<open>__call__(self, image)\<close>; \<open>compose\<close> is the application of a \<open>Compose\<close> pipeline.
  \<open>range(k)\<close> is empty for a negative \<open>k\<close>, which is \<open>nat k = 0\<close>.
\<close>

definition call ::
  "('s transform list \<Rightarrow> 'img \<Rightarrow> 'rng \<Rightarrow> 'view \<times> 'rng) \<Rightarrow> 's DataAugmentationDINO
     \<Rightarrow> 'img \<Rightarrow> 'rng \<Rightarrow> 'view list \<times> 'rng" where
  "call compose self img r =
     (case compose (global_transfo1 self) img r of (v1, r1) \<Rightarrow>
      case compose (global_transfo2 self) img r1 of (v2, r2) \<Rightarrow>
        local_crops (compose (local_transfo self)) img
          (nat (local_crops_number self)) [v1, v2] r2)"

text \<open>The state of the random generators after \<open>i\<close> applications of \<open>f\<close> to the image.\<close>

definition rng_after :: "('img \<Rightarrow> 'rng \<Rightarrow> 'view \<times> 'rng) \<Rightarrow> 'img \<Rightarrow> nat \<Rightarrow> 'rng \<Rightarrow> 'rng" where
  "rng_after f img i r = ((\<lambda>s. snd (f img s)) ^^ i) r"


section \<open>Values, exceptions and the tensor operations the loss uses\<close>

text \<open>
  The exceptions the modelled code can raise. Tensor entries and Python floats are real
  numbers here: rounding, overflow and the values \<open>inf\<close> and \<open>nan\<close> have no counterpart,
  so a floating-point division by zero (a zero temperature, the mean of an empty batch) is
  HOL's total division, and the theorems about values exclude those inputs by hypothesis.
  What raises in the source is an \<open>Inl\<close> in the model.
\<close>

datatype error = IndexError | ValueError | ZeroDivisionError | RuntimeError | UnboundLocalError

text \<open>
  A two-dimensional tensor of shape \<open>(n, d)\<close> is the list of its \<open>n\<close> rows, each a list of
  \<open>d\<close> entries. (A tensor without rows keeps no column count.)
\<close>

type_synonym tensor = "real list list"

definition wf_tensor :: "nat \<Rightarrow> nat \<Rightarrow> tensor \<Rightarrow> bool" where
  "wf_tensor n d t \<longleftrightarrow> length t = n \<and> list_all (\<lambda>row. length row = d) t"

text \<open>Indexing a Python list or a numpy array: a negative index counts from the end.\<close>

definition getitem :: "'a list \<Rightarrow> int \<Rightarrow> error + 'a" where
  "getitem xs i =
     (if 0 \<le> i \<and> i < int (length xs) then Inr (xs ! nat i)
      else if i < 0 \<and> - int (length xs) \<le> i then Inr (xs ! nat (int (length xs) + i))
      else Inl IndexError)"

text \<open>The first error of a list of results, or all the values.\<close>

fun collect :: "(error + 'a) list \<Rightarrow> error + 'a list" where
  "collect [] = Inr []"
| "collect (x # xs) =
     (case x of Inl e \<Rightarrow> Inl e
      | Inr v \<Rightarrow> (case collect xs of Inl e \<Rightarrow> Inl e | Inr vs \<Rightarrow> Inr (v # vs)))"

text \<open>
  Elementwise binary operations broadcast: along a dimension the two sizes are equal, or
  one of them is 1 and that operand is repeated; any other pair of sizes raises.
\<close>

definition bcast_vec :: "(real \<Rightarrow> real \<Rightarrow> real) \<Rightarrow> real list \<Rightarrow> real list \<Rightarrow> error + real list" where
  "bcast_vec f x y =
     (if length x = length y then Inr (map2 f x y)
      else if length x = 1 then Inr (map (f (hd x)) y)
      else if length y = 1 then Inr (map (\<lambda>a. f a (hd y)) x)
      else Inl RuntimeError)"

definition bcast_rows :: "(real \<Rightarrow> real \<Rightarrow> real) \<Rightarrow> tensor \<Rightarrow> tensor \<Rightarrow> error + tensor" where
  "bcast_rows f a b =
     (if length a = length b then collect (map2 (bcast_vec f) a b)
      else if length a = 1 then collect (map (bcast_vec f (hd a)) b)
      else if length b = 1 then collect (map (\<lambda>row. bcast_vec f row (hd b)) a)
      else Inl RuntimeError)"

text \<open>
  \<open>torch.split(split_size)\<close> along dimension 0: \<open>max(ceil(n / split_size), 1)\<close> pieces, piece
  \<open>i\<close> starting at row \<open>i * split_size\<close>, the last one holding what remains.
\<close>

definition split_rows :: "'a list \<Rightarrow> nat \<Rightarrow> 'a list list" where
  "split_rows xs k =
     map (\<lambda>i. take k (drop (i * k) xs)) [0..<max ((length xs + k - 1) div k) 1]"

text \<open>
  \<open>Tensor.chunk(chunks)\<close> along dimension 0: the chunk count must be positive; the pieces
  have \<open>ceil(n / chunks)\<close> rows, so there may be fewer pieces than asked for; a tensor
  without rows gives \<open>chunks\<close> empty pieces.
\<close>

definition chunk :: "'a list \<Rightarrow> int \<Rightarrow> error + 'a list list" where
  "chunk xs chunks =
     (if chunks \<le> 0 then Inl RuntimeError
      else let split_size = (length xs + nat chunks - 1) div nat chunks
           in if split_size = 0 then Inr (replicate (nat chunks) [])
              else Inr (split_rows xs split_size))"

text \<open>\<open>F.softmax(x, dim=-1)\<close> and \<open>F.log_softmax(x, dim=-1)\<close> on one row.\<close>

definition softmax :: "real list \<Rightarrow> real list" where
  "softmax x = map (\<lambda>a. exp a / sum_list (map exp x)) x"

definition log_softmax :: "real list \<Rightarrow> real list" where
  "log_softmax x = map (\<lambda>a. a - ln (sum_list (map exp x))) x"

text \<open>\<open>Tensor.mean()\<close> of a one-dimensional tensor.\<close>

definition mean :: "real list \<Rightarrow> real" where
  "mean xs = sum_list xs / real (length xs)"

text \<open>\<open>torch.sum(t, dim=0, keepdim=True)\<close>: the single row of column sums.\<close>

definition sum_dim0 :: "tensor \<Rightarrow> real list" where
  "sum_dim0 t = (case t of [] \<Rightarrow> [] | row # rows \<Rightarrow> foldl (map2 (+)) row rows)"

text \<open>
  \<open>np.linspace(start, stop, num)\<close> with the end point included, as numpy computes it: a
  negative \<open>num\<close> raises; the step is \<open>(stop - start) / (num - 1)\<close> when \<open>num > 1\<close>; the last
  entry is then set to \<open>stop\<close>.
\<close>

definition linspace :: "real \<Rightarrow> real \<Rightarrow> int \<Rightarrow> error + real list" where
  "linspace start stop num =
     (if num < 0 then Inl ValueError
      else let dv = num - 1;
               delta = stop - start;
               y = map real [0..<nat num];
               y1 = (if dv > 0 then map (\<lambda>i. i * (delta / real_of_int dv)) y
                     else map (\<lambda>i. i * delta) y);
               y2 = map (\<lambda>v. v + start) y1
           in Inr (if num > 1 then y2[nat num - 1 := stop] else y2))"

text \<open>\<open>np.ones(n)\<close>: a negative size raises.\<close>

definition ones :: "int \<Rightarrow> error + real list" where
  "ones n = (if n < 0 then Inl ValueError else Inr (replicate (nat n) 1))"

text \<open>\<open>torch.zeros(1, n)\<close>, as its single row: a negative size raises.\<close>

definition zeros :: "int \<Rightarrow> error + real list" where
  "zeros n = (if n < 0 then Inl RuntimeError else Inr (replicate (nat n) 0))"


section \<open>The loss engine: \<open>DINOLoss\<close>\<close>

record DINOLoss =
  student_temp :: real
  center_momentum :: real
  ncrops :: int
  center :: "real list"
  teacher_temp_schedule :: "real list"

text \<open>
  \<open>__init__(self, out_dim, ncrops, warmup_teacher_temp, teacher_temp,
  warmup_teacher_temp_epochs, nepochs, student_temp=0.1, center_momentum=0.9)\<close>.
  The buffer \<open>center\<close> has shape \<open>(1, out_dim)\<close> and is kept as its row.
\<close>

definition DINOLoss_init ::
  "int \<Rightarrow> int \<Rightarrow> real \<Rightarrow> real \<Rightarrow> int \<Rightarrow> int \<Rightarrow> real \<Rightarrow> real \<Rightarrow> error + DINOLoss" where
  "DINOLoss_init out_dim n warmup_teacher_temp teacher_temp warmup_teacher_temp_epochs nepochs
       st cm =
     (case zeros out_dim of
        Inl e \<Rightarrow> Inl e
      | Inr c \<Rightarrow>
     (case linspace warmup_teacher_temp teacher_temp warmup_teacher_temp_epochs of
        Inl e \<Rightarrow> Inl e
      | Inr ramp \<Rightarrow>
     (case ones (nepochs - warmup_teacher_temp_epochs) of
        Inl e \<Rightarrow> Inl e
      | Inr flat \<Rightarrow>
          Inr \<lparr> student_temp = st, center_momentum = cm, ncrops = n, center = c,
                teacher_temp_schedule = ramp @ map (\<lambda>x. x * teacher_temp) flat \<rparr>)))"

text \<open>
  \<open>dist.all_reduce(t)\<close> replaces \<open>t\<close> on every worker by the sum of all the workers'
  tensors, and \<open>dist.get_world_size()\<close> counts the workers. The process group is the list
  \<open>others\<close> of the tensors the other workers pass to the same collective call.
\<close>

fun all_reduce :: "real list list \<Rightarrow> real list \<Rightarrow> error + real list" where
  "all_reduce [] t = Inr t"
| "all_reduce (other # others) t =
     (if length other = length t then all_reduce others (map2 (+) t other)
      else Inl RuntimeError)"

definition get_world_size :: "real list list \<Rightarrow> nat" where
  "get_world_size others = 1 + length others"

text \<open>\<open>update_center(self, teacher_output)\<close>.\<close>

definition update_center :: "DINOLoss \<Rightarrow> tensor \<Rightarrow> real list list \<Rightarrow> error + DINOLoss" where
  "update_center self teacher_output others =
     (case all_reduce others (sum_dim0 teacher_output) of
        Inl e \<Rightarrow> Inl e
      | Inr reduced \<Rightarrow>
     (let batch_center =
            map (\<lambda>x. x / (real (length teacher_output) * real (get_world_size others))) reduced
      in (case bcast_vec (+) (map (\<lambda>c. c * center_momentum self) (center self))
                 (map (\<lambda>b. b * (1 - center_momentum self)) batch_center) of
            Inl e \<Rightarrow> Inl e
          | Inr c \<Rightarrow> Inr (self\<lparr>center := c\<rparr>))))"

text \<open>
  One pair term: \<open>torch.sum(-q * F.log_softmax(s, dim=-1), dim=-1).mean()\<close> for a teacher
  chunk \<open>q\<close> and a student chunk \<open>s\<close>.
\<close>

definition pair_loss :: "tensor \<Rightarrow> tensor \<Rightarrow> error + real" where
  "pair_loss q s =
     (case bcast_rows (*) (map (map uminus) q) (map log_softmax s) of
        Inl e \<Rightarrow> Inl e
      | Inr products \<Rightarrow> Inr (mean (map sum_list products)))"

text \<open>
  The inner loop \<open>for v in range(len(student_out))\<close> with its \<open>continue\<close>, on the pair
  \<open>(total_loss, n_loss_terms)\<close>; the list argument is what remains of the range.
\<close>

fun inner_loop ::
  "nat \<Rightarrow> tensor \<Rightarrow> tensor list \<Rightarrow> nat list \<Rightarrow> real \<times> nat \<Rightarrow> error + real \<times> nat" where
  "inner_loop iq q student_out [] acc = Inr acc"
| "inner_loop iq q student_out (v # vs) (total_loss, n_loss_terms) =
     (if v = iq then inner_loop iq q student_out vs (total_loss, n_loss_terms)
      else case pair_loss q (student_out ! v) of
             Inl e \<Rightarrow> Inl e
           | Inr loss \<Rightarrow> inner_loop iq q student_out vs (total_loss + loss, n_loss_terms + 1))"

text \<open>The outer loop \<open>for iq, q in enumerate(teacher_out)\<close>.\<close>

fun outer_loop ::
  "tensor list \<Rightarrow> (nat \<times> tensor) list \<Rightarrow> real \<times> nat \<Rightarrow> error + real \<times> nat" where
  "outer_loop student_out [] acc = Inr acc"
| "outer_loop student_out ((iq, q) # rest) acc =
     (case inner_loop iq q student_out [0..<length student_out] acc of
        Inl e \<Rightarrow> Inl e
      | Inr acc' \<Rightarrow> outer_loop student_out rest acc')"

text \<open>
  \<open>forward(self, student_output, teacher_output, epoch)\<close>, returning the loss and the
  engine after the call. \<open>total_loss\<close> and \<open>n_loss_terms\<close> start as the Python integers 0,
  so dividing them when no pair was accumulated raises.
\<close>

definition forward ::
  "DINOLoss \<Rightarrow> tensor \<Rightarrow> tensor \<Rightarrow> int \<Rightarrow> real list list \<Rightarrow> error + real \<times> DINOLoss" where
  "forward self student_output teacher_output epoch others =
     (case chunk (map (map (\<lambda>x. x / student_temp self)) student_output) (ncrops self) of
        Inl e \<Rightarrow> Inl e
      | Inr student_out \<Rightarrow>
     (case getitem (teacher_temp_schedule self) epoch of
        Inl e \<Rightarrow> Inl e
      | Inr temp \<Rightarrow>
     (case collect (map (\<lambda>row. bcast_vec (-) row (center self)) teacher_output) of
        Inl e \<Rightarrow> Inl e
      | Inr centered \<Rightarrow>
     (case chunk (map (\<lambda>row. softmax (map (\<lambda>x. x / temp) row)) centered) 2 of
        Inl e \<Rightarrow> Inl e
      | Inr teacher_out \<Rightarrow>
     (case outer_loop student_out (zip [0..<length teacher_out] teacher_out) (0, 0) of
        Inl e \<Rightarrow> Inl e
      | Inr (total_loss, n_loss_terms) \<Rightarrow>
          if n_loss_terms = 0 then Inl ZeroDivisionError
          else (case update_center self teacher_output others of
                  Inl e \<Rightarrow> Inl e
                | Inr self' \<Rightarrow> Inr (total_loss / real n_loss_terms, self')))))))"

text \<open>The engine a caller holds after a call: an exception leaves it as it was.\<close>

definition engine_after :: "DINOLoss \<Rightarrow> error + real \<times> DINOLoss \<Rightarrow> DINOLoss" where
  "engine_after self res = (case res of Inl e \<Rightarrow> self | Inr (loss, self') \<Rightarrow> self')"


section \<open>Parameters, the two networks and the training loop\<close>

text \<open>
  A parameter of a network: its name in the module's \<open>state_dict\<close>, its values and its
  \<open>requires_grad\<close> flag. The values are the tensor's entries in order, without its shape. A
  network is the list of its parameters, in the order of \<open>parameters()\<close>; the student and
  the teacher are built by two separate constructor calls, so they share no tensor and
  are two lists of values here.
\<close>

record param =
  name :: string
  data :: "real list"
  requires_grad :: bool

text \<open>\<open>module.state_dict()\<close>, restricted to the parameters.\<close>

definition state_dict :: "param list \<Rightarrow> (string \<times> real list) list" where
  "state_dict net = map (\<lambda>p. (name p, data p)) net"

text \<open>
  \<open>module.load_state_dict(sd)\<close> (strict): missing or unexpected keys and size mismatches
  raise; otherwise every parameter takes the values stored under its name. The flags are
  not part of a \<open>state_dict\<close> and stay.
\<close>

definition load_state_dict :: "param list \<Rightarrow> (string \<times> real list) list \<Rightarrow> error + param list" where
  "load_state_dict net sd =
     (if set (map name net) \<noteq> set (map fst sd) then Inl RuntimeError
      else if \<exists>p \<in> set net.
                (case map_of sd (name p) of None \<Rightarrow> True
                 | Some v \<Rightarrow> length v \<noteq> length (data p)) then Inl RuntimeError
      else Inr (map (\<lambda>p. case map_of sd (name p) of None \<Rightarrow> p | Some v \<Rightarrow> p\<lparr>data := v\<rparr>)
                  net))"

text \<open>
  \<open>train_dino\<close>, where it makes the teacher start from the student:
  \<open>teacher_without_ddp.load_state_dict(student.module.state_dict())\<close>, then
  \<open>for p in teacher.parameters(): p.requires_grad = False\<close>.
\<close>

definition init_teacher :: "param list \<Rightarrow> param list \<Rightarrow> error + param list" where
  "init_teacher student_net teacher_net =
     (case load_state_dict teacher_net (state_dict student_net) of
        Inl e \<Rightarrow> Inl e
      | Inr loaded \<Rightarrow> Inr (map (\<lambda>p. p\<lparr>requires_grad := False\<rparr>) loaded))"

text \<open>
  \<open>param_k.data.mul_(m).add_((1 - m) * param_q.detach().data)\<close> on the values of one
  pair of parameters: in place on the teacher's tensor, so the student's must have its
  size, or a single entry that is repeated; any other size raises.
\<close>

definition ema_tensor :: "real \<Rightarrow> real list \<Rightarrow> real list \<Rightarrow> error + real list" where
  "ema_tensor m q k =
     (if length q = length k then Inr (map2 (\<lambda>x y. x * m + (1 - m) * y) k q)
      else if length q = 1 then Inr (map (\<lambda>x. x * m + (1 - m) * hd q) k)
      else Inl RuntimeError)"

text \<open>
  The loop \<open>for param_q, param_k in zip(student.module.parameters(),
  teacher_without_ddp.parameters())\<close>: \<open>zip\<close> stops at the shorter list, and a teacher
  parameter beyond it is left as it is. Only \<open>.data\<close> is written.
\<close>

fun ema_update :: "real \<Rightarrow> param list \<Rightarrow> param list \<Rightarrow> error + param list" where
  "ema_update m [] ks = Inr ks"
| "ema_update m (param_q # qs) [] = Inr []"
| "ema_update m (param_q # qs) (param_k # ks) =
     (case ema_tensor m (data param_q) (data param_k) of
        Inl e \<Rightarrow> Inl e
      | Inr d \<Rightarrow>
     (case ema_update m qs ks of
        Inl e \<Rightarrow> Inl e
      | Inr ks' \<Rightarrow> Inr (param_k\<lparr>data := d\<rparr> # ks')))"

text \<open>What \<open>loss.item()\<close> returns: a Python float, which may be infinite or not a number.\<close>

datatype pyfloat = Finite real | PosInf | NegInf | NaN

fun isfinite :: "pyfloat \<Rightarrow> bool" where
  "isfinite (Finite x) = True"
| "isfinite PosInf = False"
| "isfinite NegInf = False"
| "isfinite NaN = False"

record param_group =
  lr :: real
  weight_decay :: real

text \<open>
  The loop over \<open>enumerate(optimizer.param_groups)\<close> that installs the step's learning rate
  and, in the first group only, its weight decay.
\<close>

fun set_schedules ::
  "real list \<Rightarrow> real list \<Rightarrow> int \<Rightarrow> nat \<Rightarrow> param_group list \<Rightarrow> error + param_group list" where
  "set_schedules lr_schedule wd_schedule it i [] = Inr []"
| "set_schedules lr_schedule wd_schedule it i (g # gs) =
     (case getitem lr_schedule it of
        Inl e \<Rightarrow> Inl e
      | Inr l \<Rightarrow>
     (case (if i = 0 then (case getitem wd_schedule it of
                             Inl e \<Rightarrow> Inl e
                           | Inr w \<Rightarrow> Inr (g\<lparr>lr := l, weight_decay := w\<rparr>))
            else Inr (g\<lparr>lr := l\<rparr>)) of
        Inl e \<Rightarrow> Inl e
      | Inr g' \<Rightarrow>
     (case set_schedules lr_schedule wd_schedule it (Suc i) gs of
        Inl e \<Rightarrow> Inl e
      | Inr gs' \<Rightarrow> Inr (g' # gs'))))"

text \<open>
  What \<open>train_one_epoch\<close> works on: the parameters of the student and of the teacher, the
  optimizer (its parameter groups, and the rest of it together with the loss scaler as
  \<open>optimizer_state\<close>), the loss module, and the lines printed so far.
\<close>

record ('o, 'l) train_state =
  student :: "param list"
  teacher :: "param list"
  param_groups :: "param_group list"
  optimizer_state :: 'o
  dino_loss_state :: 'l
  stdout :: "string list"

text \<open>
  What \<open>train_one_epoch\<close> calls and this file does not define. The two forward passes give
  an embedding from a network's parameters and a list of views. \<open>dino_loss\<close> is the loss
  module handed to \<open>train_one_epoch\<close>: it gives the value of \<open>loss.item()\<close> and its own next
  state. \<open>student_step\<close> is the block from \<open>optimizer.zero_grad()\<close> to the optimizer's step
  (backward pass, gradient clipping, \<open>cancel_gradients_last_layer\<close>, with or without the loss
  scaler): the optimizer was built from \<open>utils.get_params_groups(student)\<close>, so it writes
  the student's parameters and its own state, and nothing else. \<open>float_str\<close> is Python's
  formatting of a float.
\<close>

record ('img, 'emb, 'o, 'l) capabilities =
  teacher_forward :: "param list \<Rightarrow> 'img list \<Rightarrow> 'emb"
  student_forward :: "param list \<Rightarrow> 'img list \<Rightarrow> 'emb"
  dino_loss :: "'l \<Rightarrow> 'emb \<Rightarrow> 'emb \<Rightarrow> int \<Rightarrow> error + pyfloat \<times> 'l"
  student_step ::
    "param_group list \<Rightarrow> 'o \<Rightarrow> int \<Rightarrow> 'img list \<Rightarrow> param list \<Rightarrow> param list \<Rightarrow> 'l
       \<Rightarrow> error + param list \<times> 'o"
  float_str :: "pyfloat \<Rightarrow> string"

text \<open>
  How a piece of the run ends: it goes on with a state, the process exits with a status
  (\<open>sys.exit\<close>), or an exception escapes.
\<close>

datatype 's outcome = Continue 's | SysExit int 's | Raise error

text \<open>
  One iteration of the loop of \<open>train_one_epoch\<close>, for batch number \<open>i\<close> of the epoch.
  \<open>print(..., force=True)\<close> appends a line to \<open>stdout\<close>.
\<close>

definition train_iteration ::
  "('img, 'emb, 'o, 'l) capabilities \<Rightarrow> real list \<Rightarrow> real list \<Rightarrow> real list \<Rightarrow> int \<Rightarrow> int
     \<Rightarrow> ('o, 'l) train_state \<Rightarrow> nat \<Rightarrow> 'img list \<Rightarrow> ('o, 'l) train_state outcome" where
  "train_iteration env lr_schedule wd_schedule momentum_schedule len_data_loader epoch st i images =
     (let it = len_data_loader * epoch + int i in
      (case set_schedules lr_schedule wd_schedule it 0 (param_groups st) of
         Inl e \<Rightarrow> Raise e
       | Inr groups \<Rightarrow>
      (let teacher_output = teacher_forward env (teacher st) (take 2 images);
           student_output = student_forward env (student st) images
       in (case dino_loss env (dino_loss_state st) student_output teacher_output epoch of
             Inl e \<Rightarrow> Raise e
           | Inr (loss, loss_state') \<Rightarrow>
               if \<not> isfinite loss
               then SysExit 1
                      (st\<lparr>param_groups := groups, dino_loss_state := loss_state',
                          stdout := stdout st
                            @ [''Loss is '' @ float_str env loss @ '', stopping training'']\<rparr>)
               else
              (case student_step env groups (optimizer_state st) epoch images
                      (student st) (teacher st) (dino_loss_state st) of
                 Inl e \<Rightarrow> Raise e
               | Inr (student', optimizer') \<Rightarrow>
              (case getitem momentum_schedule it of
                 Inl e \<Rightarrow> Raise e
               | Inr m \<Rightarrow>
              (case ema_update m student' (teacher st) of
                 Inl e \<Rightarrow> Raise e
               | Inr teacher' \<Rightarrow>
                   Continue (st\<lparr>student := student', teacher := teacher',
                                param_groups := groups, optimizer_state := optimizer',
                                dino_loss_state := loss_state'\<rparr>))))))))"

text \<open>The loop \<open>for it, (images, _) in enumerate(data_loader)\<close>, from batch number \<open>i\<close> on.\<close>

fun train_batches ::
  "('img, 'emb, 'o, 'l) capabilities \<Rightarrow> real list \<Rightarrow> real list \<Rightarrow> real list \<Rightarrow> int \<Rightarrow> int
     \<Rightarrow> ('o, 'l) train_state \<Rightarrow> nat \<Rightarrow> 'img list list \<Rightarrow> ('o, 'l) train_state outcome" where
  "train_batches env lrs wds ms len_data_loader epoch st i [] = Continue st"
| "train_batches env lrs wds ms len_data_loader epoch st i (images # rest) =
     (case train_iteration env lrs wds ms len_data_loader epoch st i images of
        Continue st' \<Rightarrow> train_batches env lrs wds ms len_data_loader epoch st' (Suc i) rest
      | SysExit status st' \<Rightarrow> SysExit status st'
      | Raise e \<Rightarrow> Raise e)"

text \<open>
  \<open>train_one_epoch\<close>, as far as the parameters, the loss module and the printed lines go
  (the metric logger is left out); \<open>data_loader\<close> is the list of the epoch's batches.
\<close>

definition train_one_epoch ::
  "('img, 'emb, 'o, 'l) capabilities \<Rightarrow> real list \<Rightarrow> real list \<Rightarrow> real list \<Rightarrow> int
     \<Rightarrow> ('o, 'l) train_state \<Rightarrow> 'img list list \<Rightarrow> ('o, 'l) train_state outcome" where
  "train_one_epoch env lr_schedule wd_schedule momentum_schedule epoch st data_loader =
     train_batches env lr_schedule wd_schedule momentum_schedule (int (length data_loader))
       epoch st 0 data_loader"

text \<open>
  The loop \<open>for epoch in range(start_epoch, args.epochs)\<close> of \<open>train_dino\<close>, over the epochs
  that remain; \<open>data_loader epoch\<close> is the list of batches the loader yields after
  \<open>set_epoch(epoch)\<close>. Writing the checkpoint and the log line changes nothing modelled here.
\<close>

fun train_epochs ::
  "('img, 'emb, 'o, 'l) capabilities \<Rightarrow> real list \<Rightarrow> real list \<Rightarrow> real list
     \<Rightarrow> (int \<Rightarrow> 'img list list) \<Rightarrow> ('o, 'l) train_state \<Rightarrow> int list
     \<Rightarrow> ('o, 'l) train_state outcome" where
  "train_epochs env lrs wds ms data_loader st [] = Continue st"
| "train_epochs env lrs wds ms data_loader st (epoch # epochs) =
     (case train_one_epoch env lrs wds ms epoch st (data_loader epoch) of
        Continue st' \<Rightarrow> train_epochs env lrs wds ms data_loader st' epochs
      | SysExit status st' \<Rightarrow> SysExit status st'
      | Raise e \<Rightarrow> Raise e)"


text \<open>The state a piece of the run ends in, unless an exception escapes.\<close>

fun final_state :: "'s outcome \<Rightarrow> 's option" where
  "final_state (Continue st) = Some st"
| "final_state (SysExit status st) = Some st"
| "final_state (Raise e) = None"

text \<open>
  The EMA rule on its own, for comparison with what a run does to the teacher: starting from
  a teacher, one application of the update of \<open>train_one_epoch\<close> for every entry of a list
  of steps, in order. A step is the global iteration number \<open>it\<close>, whose entry of the
  momentum schedule is the momentum, and the student's parameters at that moment.
\<close>

fun ema_replay :: "real list \<Rightarrow> (int \<times> param list) list \<Rightarrow> param list \<Rightarrow> error + param list" where
  "ema_replay momentum_schedule [] ks = Inr ks"
| "ema_replay momentum_schedule ((it, qs) # steps) ks =
     (case getitem momentum_schedule it of
        Inl e \<Rightarrow> Inl e
      | Inr m \<Rightarrow>
     (case ema_update m qs ks of
        Inl e \<Rightarrow> Inl e
      | Inr ks' \<Rightarrow> ema_replay momentum_schedule steps ks'))"

text \<open>
  The steps a run went through: for every iteration that ran to its end, in order, its
  global iteration number \<open>len(data_loader) * epoch + i\<close> and the student's parameters as
  the optimizer step of that iteration left them. An iteration that exits or raises is not
  a step, and nothing runs after it.
\<close>

fun batches_steps ::
  "('img, 'emb, 'o, 'l) capabilities \<Rightarrow> real list \<Rightarrow> real list \<Rightarrow> real list \<Rightarrow> int \<Rightarrow> int
     \<Rightarrow> ('o, 'l) train_state \<Rightarrow> nat \<Rightarrow> 'img list list \<Rightarrow> (int \<times> param list) list" where
  "batches_steps env lrs wds ms len_data_loader epoch st i [] = []"
| "batches_steps env lrs wds ms len_data_loader epoch st i (images # rest) =
     (case train_iteration env lrs wds ms len_data_loader epoch st i images of
        Continue st' \<Rightarrow>
          (len_data_loader * epoch + int i, student st')
            # batches_steps env lrs wds ms len_data_loader epoch st' (Suc i) rest
      | SysExit status st' \<Rightarrow> []
      | Raise e \<Rightarrow> [])"

fun epochs_steps ::
  "('img, 'emb, 'o, 'l) capabilities \<Rightarrow> real list \<Rightarrow> real list \<Rightarrow> real list
     \<Rightarrow> (int \<Rightarrow> 'img list list) \<Rightarrow> ('o, 'l) train_state \<Rightarrow> int list
     \<Rightarrow> (int \<times> param list) list" where
  "epochs_steps env lrs wds ms data_loader st [] = []"
| "epochs_steps env lrs wds ms data_loader st (epoch # epochs) =
     batches_steps env lrs wds ms (int (length (data_loader epoch))) epoch st 0 (data_loader epoch)
       @ (case train_one_epoch env lrs wds ms epoch st (data_loader epoch) of
            Continue st' \<Rightarrow> epochs_steps env lrs wds ms data_loader st' epochs
          | SysExit status st' \<Rightarrow> []
          | Raise e \<Rightarrow> [])"

section \<open>Choosing the architecture in \<open>train_dino\<close>\<close>

text \<open>\<open>s.replace(old, new)\<close> for a non-empty \<open>old\<close>: the occurrences from the left, not overlapping.\<close>

fun replace :: "string \<Rightarrow> string \<Rightarrow> string \<Rightarrow> string" where
  "replace old new [] = []"
| "replace old new (c # cs) =
     (if old \<noteq> [] \<and> take (length old) (c # cs) = old
      then new @ replace old new (drop (length old - 1) cs)
      else c # replace old new cs)"

text \<open>
  The model zoo \<open>train_dino\<close> looks the name up in: the names of the module
  \<open>vision_transformer\<close>, of \<open>torch.hub.list("facebookresearch/xcit:main")\<close> and of
  \<open>torchvision.models\<close>, each with what builds the student, the teacher and \<open>embed_dim\<close>.
\<close>

record 'net zoo =
  vits_keys :: "string list"
  vits_build :: "string \<Rightarrow> 'net \<times> 'net \<times> int"
  xcit_list :: "string list"
  xcit_build :: "string \<Rightarrow> 'net \<times> 'net \<times> int"
  torchvision_keys :: "string list"
  torchvision_build :: "string \<Rightarrow> 'net \<times> 'net \<times> int"

text \<open>
  The \<open>if\<close>/\<open>elif\<close>/\<open>else\<close> chain: it binds the local variables \<open>student\<close>, \<open>teacher\<close> and
  \<open>embed_dim\<close>, or, in the last branch, prints and binds nothing. An unbound local is \<open>None\<close>.
\<close>

definition select_arch ::
  "'net zoo \<Rightarrow> string \<Rightarrow> string list \<Rightarrow> ('net option \<times> 'net option \<times> int option) \<times> string list"
where
  "select_arch z arch out =
     (if arch \<in> set (vits_keys z) then
        (case vits_build z arch of (s, t, e) \<Rightarrow> ((Some s, Some t, Some e), out))
      else if arch \<in> set (xcit_list z) then
        (case xcit_build z arch of (s, t, e) \<Rightarrow> ((Some s, Some t, Some e), out))
      else if arch \<in> set (torchvision_keys z) then
        (case torchvision_build z arch of (s, t, e) \<Rightarrow> ((Some s, Some t, Some e), out))
      else ((None, None, None), out @ [''Unknow architecture: '' @ arch]))"

text \<open>
  The statements after the chain, \<open>student = utils.MultiCropWrapper(student, DINOHead(embed_dim,
  ...))\<close> and the same for the teacher; \<open>wrap\<close> stands for the wrapper around a backbone and a
  head of the given input width. Reading an unbound local raises.
\<close>

definition wrap_networks ::
  "('net \<Rightarrow> int \<Rightarrow> 'w) \<Rightarrow> 'net option \<times> 'net option \<times> int option \<Rightarrow> error + 'w \<times> 'w" where
  "wrap_networks wrap locals =
     (case locals of (student_local, teacher_local, embed_dim) \<Rightarrow>
      (case student_local of None \<Rightarrow> Inl UnboundLocalError | Some s \<Rightarrow>
      (case embed_dim of None \<Rightarrow> Inl UnboundLocalError | Some e \<Rightarrow>
      (case teacher_local of None \<Rightarrow> Inl UnboundLocalError | Some t \<Rightarrow>
         Inr (wrap s e, wrap t e)))))"

text \<open>
  \<open>train_dino\<close> from \<open>args.arch = args.arch.replace("deit", "vit")\<close> to the wrapped
  networks, with the lines it prints.
\<close>

definition build_networks ::
  "'net zoo \<Rightarrow> ('net \<Rightarrow> int \<Rightarrow> 'w) \<Rightarrow> string \<Rightarrow> string list \<Rightarrow> (error + 'w \<times> 'w) \<times> string list" where
  "build_networks z wrap arch out =
     (case select_arch z (replace ''deit'' ''vit'' arch) out of
        (locals, out') \<Rightarrow> (wrap_networks wrap locals, out'))"


section \<open>The loss as the specification words it\<close>

text \<open>
  The definitions of this section follow the specification's sentences, not the code; the
  theorems below compare them with what \<open>forward\<close> computes.

  The ordered pairs of step 3: teacher view \<open>iq\<close> in \<open>[0, n_teacher)\<close> and student view \<open>v\<close>
  in \<open>[0, n_student)\<close> with \<open>v \<noteq> iq\<close>.
\<close>

definition view_pairs :: "nat \<Rightarrow> nat \<Rightarrow> (nat \<times> nat) list" where
  "view_pairs n_teacher n_student =
     concat (map (\<lambda>iq. map (Pair iq) (filter (\<lambda>v. v \<noteq> iq) [0..<n_student])) [0..<n_teacher])"

text \<open>
  The per-view chunks of the data model: an embedding batch of \<open>n\<close> views and batch size \<open>b\<close>
  is partitioned into \<open>n\<close> chunks of \<open>b\<close> rows each, order preserved. The student's are
  scaled by \<open>1 / student_temp\<close>; the teacher has two, centred, sharpened and normalised.
\<close>

definition student_views :: "real \<Rightarrow> nat \<Rightarrow> nat \<Rightarrow> tensor \<Rightarrow> tensor list" where
  "student_views st n b student_output =
     map (\<lambda>k. take b (drop (k * b) (map (map (\<lambda>x. x / st)) student_output))) [0..<n]"

definition teacher_views :: "real list \<Rightarrow> real \<Rightarrow> nat \<Rightarrow> tensor \<Rightarrow> tensor list" where
  "teacher_views c temp b teacher_output =
     map (\<lambda>k. take b (drop (k * b)
            (map (\<lambda>row. softmax (map (\<lambda>x. x / temp) (map2 (-) row c))) teacher_output)))
       [0..<2]"

text \<open>
  Entry \<open>d\<close> of the teacher probability of one embedding row,
  \<open>softmax((teacher_embedding - center) / temp)\<close>.
\<close>

definition teacher_prob :: "real list \<Rightarrow> real \<Rightarrow> real list \<Rightarrow> nat \<Rightarrow> real" where
  "teacher_prob c temp row d =
     exp ((row ! d - c ! d) / temp) / (\<Sum>j<length row. exp ((row ! j - c ! j) / temp))"

text \<open>Entry \<open>d\<close> of \<open>log_softmax\<close> of one student row scaled by \<open>1 / student_temp\<close>.\<close>

definition student_logp :: "real \<Rightarrow> real list \<Rightarrow> nat \<Rightarrow> real" where
  "student_logp st row d = row ! d / st - ln (\<Sum>j<length row. exp (row ! j / st))"

text \<open>
  The pair term of teacher view \<open>iq\<close> and student view \<open>v\<close> for a batch of \<open>b\<close> samples and
  \<open>out_dim\<close> output dimensions: the mean over the batch of the sum over the output dimension of
  \<open>- teacher_prob[iq] * log_softmax(student_scaled[v])\<close>. View \<open>k\<close> of an embedding batch is
  its rows \<open>k * b\<close> to \<open>k * b + b - 1\<close>.
\<close>

definition pair_term ::
  "real list \<Rightarrow> real \<Rightarrow> real \<Rightarrow> nat \<Rightarrow> nat \<Rightarrow> tensor \<Rightarrow> tensor \<Rightarrow> nat \<times> nat \<Rightarrow> real" where
  "pair_term c temp st b out_dim student_output teacher_output p =
     (case p of (iq, v) \<Rightarrow>
        (\<Sum>i<b. \<Sum>d<out_dim.
            - teacher_prob c temp (teacher_output ! (iq * b + i)) d
              * student_logp st (student_output ! (v * b + i)) d) / real b)"

text \<open>
  Entry \<open>d\<close> of the batch mean of step 5: the sum of the teacher embedding rows of all the
  workers, divided by the number of those rows.
\<close>

definition batch_mean :: "tensor list \<Rightarrow> nat \<Rightarrow> real" where
  "batch_mean outputs d =
     (\<Sum>t\<leftarrow>outputs. \<Sum>row\<leftarrow>t. row ! d) / real (length (concat outputs))"


section \<open>Properties of the augmentation\<close>

lemma rng_after_0: "rng_after f img 0 r = r"
  by (simp add: rng_after_def)

lemma rng_after_Suc: "rng_after f img (Suc i) r = rng_after f img i (snd (f img r))"
  by (simp add: rng_after_def funpow_Suc_right del: funpow.simps)

lemma local_crops_fst:
  "fst (local_crops f img n crops r) =
     crops @ map (\<lambda>i. fst (f img (rng_after f img i r))) [0..<n]"
proof (induction n arbitrary: crops r)
  case 0
  show ?case by simp
next
  case (Suc n)
  obtain v r' where fr: "f img r = (v, r')" by (cases "f img r")
  have "map (\<lambda>i. fst (f img (rng_after f img i r))) [0..<Suc n] =
        fst (f img (rng_after f img 0 r)) #
        map (\<lambda>i. fst (f img (rng_after f img (Suc i) r))) [0..<n]"
    by (simp add: upt_conv_Cons map_Suc_upt [symmetric] del: upt_Suc)
  then have "map (\<lambda>i. fst (f img (rng_after f img i r))) [0..<Suc n] =
        v # map (\<lambda>i. fst (f img (rng_after f img i r'))) [0..<n]"
    by (simp add: rng_after_0 rng_after_Suc fr)
  then show ?case
    using Suc.IH [of "crops @ [v]" r'] fr by simp
qed

text \<open>
  C8. For every image and every \<open>local_crops_number = K \<ge> 0\<close>, \<open>__call__\<close> returns exactly
  \<open>2 + K\<close> views in the order global view 1, global view 2, local views 1 to K: entry 0 comes
  from \<open>global_transfo1\<close>, entry 1 from \<open>global_transfo2\<close> (run after the first), and entry
  \<open>2 + i\<close> from the \<open>i\<close>-th run of \<open>local_transfo\<close>; the two global pipelines crop to 224
  and the local pipeline crops to 96.
\<close>

theorem call_views:
  assumes K: "0 \<le> K"
    and self: "self = DataAugmentationDINO_init augmix gs ls K"
    and g1: "compose (global_transfo1 self) img r = (v1, r1)"
    and g2: "compose (global_transfo2 self) img r1 = (v2, r2)"
  shows "int (length (fst (call compose self img r))) = 2 + K
    \<and> fst (call compose self img r) ! 0 = v1
    \<and> fst (call compose self img r) ! 1 = v2
    \<and> (\<forall>i < nat K. fst (call compose self img r) ! (2 + i) =
           fst (compose (local_transfo self) img
                 (rng_after (compose (local_transfo self)) img i r2)))
    \<and> hd (global_transfo1 self) = RandomResizedCrop 224 gs
    \<and> hd (global_transfo2 self) = RandomResizedCrop 224 gs
    \<and> hd (local_transfo self) = RandomResizedCrop 96 ls"
proof -
  let ?f = "compose (local_transfo self)"
  have n: "local_crops_number self = K"
    by (simp add: self DataAugmentationDINO_init_def)
  have views: "fst (call compose self img r) =
      [v1, v2] @ map (\<lambda>i. fst (?f img (rng_after ?f img i r2))) [0..<nat K]"
    by (simp add: call_def g1 g2 n local_crops_fst)
  have len: "int (length (fst (call compose self img r))) = 2 + K"
    using K by (simp add: views)
  have locals: "\<forall>i < nat K. fst (call compose self img r) ! (2 + i) =
           fst (?f img (rng_after ?f img i r2))"
    by (simp add: views)
  have crops: "hd (global_transfo1 self) = RandomResizedCrop 224 gs"
    "hd (global_transfo2 self) = RandomResizedCrop 224 gs"
    "hd (local_transfo self) = RandomResizedCrop 96 ls"
    by (simp_all add: self DataAugmentationDINO_init_def)
  show ?thesis
    using len locals crops by (simp add: views)
qed

text \<open>
  The theorem at \<open>K = 2\<close>, with a pipeline runner that records the pipeline, the image and
  the generator state it was given, and steps the generator.
\<close>

theorem call_views_witness:
  "(0::int) \<le> 2
   \<and> int (length (fst (call (\<lambda>p i r. ((p, i, r), Suc r))
         (DataAugmentationDINO_init True (0::nat) 1 2) (7::nat) (0::nat)))) = 4
   \<and> fst (call (\<lambda>p i r. ((p, i, r), Suc r))
         (DataAugmentationDINO_init True (0::nat) 1 2) (7::nat) (0::nat)) ! 2 =
       ([RandomResizedCrop 96 1, Augmix_aug, Normalize], 7, 2)
   \<and> fst (call (\<lambda>p i r. ((p, i, r), Suc r))
         (DataAugmentationDINO_init True (0::nat) 1 2) (7::nat) (0::nat)) ! 3 =
       ([RandomResizedCrop 96 1, Augmix_aug, Normalize], 7, 3)"
proof -
  let ?c = "\<lambda>(p::nat transform list) (i::nat) (r::nat). ((p, i, r), Suc r)"
  let ?self = "DataAugmentationDINO_init True (0::nat) 1 2"
  have K: "(0::int) \<le> 2" by simp
  note t = call_views [where compose = ?c and img = "7::nat" and r = "0::nat",
      OF K refl refl refl, of True 0 1]
  have two: "(\<forall>i < nat 2. P i) \<longleftrightarrow> P 0 \<and> P 1" for P :: "nat \<Rightarrow> bool"
    by (auto simp: less_Suc_eq numeral_2_eq_2)
  show ?thesis
    using t unfolding two
    by (simp add: DataAugmentationDINO_init_def rng_after_def)
qed

section \<open>Properties of the loss engine\<close>

subsection \<open>The teacher temperature schedule\<close>

lemma linspace_ramp:
  assumes "0 \<le> w"
  shows "linspace a b w =
    Inr (map (\<lambda>i. a + real i * ((b - a) / real_of_int (w - 1))) [0..<nat w])"
proof -
  let ?f = "\<lambda>i. a + real i * ((b - a) / real_of_int (w - 1))"
  consider "w = 0" | "w = 1" | "1 < w" using assms by linarith
  then show ?thesis
  proof cases
    case 1
    then show ?thesis by (simp add: linspace_def)
  next
    case 2
    then show ?thesis by (simp add: linspace_def)
  next
    case 3
    have last: "?f (nat w - 1) = b"
      using 3 by (simp add: of_nat_diff nat_diff_distrib')
    have "(map ?f [0..<nat w])[nat w - 1 := b] = map ?f [0..<nat w]"
      using 3 last by (intro nth_equalityI) (auto simp: nth_list_update)
    then show ?thesis
      using 3 by (simp add: linspace_def Let_def o_def add.commute)
  qed
qed

text \<open>
  C5. With \<open>0 \<le> warmup_teacher_temp_epochs \<le> nepochs\<close> (and a non-negative \<open>out_dim\<close>, so
  that the constructor returns), the schedule built by \<open>__init__\<close> is a table of \<open>nepochs\<close>
  entries, one per epoch: its first \<open>warmup_teacher_temp_epochs\<close> entries are the linear ramp
  of \<open>np.linspace\<close> from \<open>warmup_teacher_temp\<close> to \<open>teacher_temp\<close> (entry \<open>i\<close> is
  \<open>warmup_teacher_temp + i * (teacher_temp - warmup_teacher_temp) / (warmup_teacher_temp_epochs - 1)\<close>,
  so the first is \<open>warmup_teacher_temp\<close> and, when there are at least two, the last is
  \<open>teacher_temp\<close>), every later entry is \<open>teacher_temp\<close>, and reading the table at any
  \<open>epoch\<close> in \<open>[0, nepochs)\<close> is in bounds and returns that entry.
\<close>

theorem teacher_temp_schedule_table:
  assumes "0 \<le> w" and "w \<le> nepochs" and "0 \<le> out_dim"
  shows "DINOLoss_init out_dim n wtt tt w nepochs st cm =
      Inr \<lparr> student_temp = st, center_momentum = cm, ncrops = n,
            center = replicate (nat out_dim) 0,
            teacher_temp_schedule =
              map (\<lambda>i. wtt + real i * ((tt - wtt) / real_of_int (w - 1))) [0..<nat w]
              @ replicate (nat (nepochs - w)) tt \<rparr>
    \<and> int (length (map (\<lambda>i. wtt + real i * ((tt - wtt) / real_of_int (w - 1))) [0..<nat w]
              @ replicate (nat (nepochs - w)) tt)) = nepochs
    \<and> (\<forall>epoch. 0 \<le> epoch \<and> epoch < nepochs \<longrightarrow>
          getitem (map (\<lambda>i. wtt + real i * ((tt - wtt) / real_of_int (w - 1))) [0..<nat w]
              @ replicate (nat (nepochs - w)) tt) epoch =
          Inr (if epoch < w then wtt + real_of_int epoch * ((tt - wtt) / real_of_int (w - 1))
               else tt))"
proof -
  let ?ramp = "map (\<lambda>i. wtt + real i * ((tt - wtt) / real_of_int (w - 1))) [0..<nat w]"
  let ?S = "?ramp @ replicate (nat (nepochs - w)) tt"
  have init: "DINOLoss_init out_dim n wtt tt w nepochs st cm =
      Inr \<lparr> student_temp = st, center_momentum = cm, ncrops = n,
            center = replicate (nat out_dim) 0, teacher_temp_schedule = ?S \<rparr>"
    using assms by (simp add: DINOLoss_init_def zeros_def ones_def linspace_ramp)
  have len: "int (length ?S) = nepochs"
    using assms by simp
  have idx: "getitem ?S epoch =
      Inr (if epoch < w then wtt + real_of_int epoch * ((tt - wtt) / real_of_int (w - 1)) else tt)"
    if "0 \<le> epoch \<and> epoch < nepochs" for epoch
  proof (cases "epoch < w")
    case True
    then have "nat epoch < nat w" using that by simp
    then show ?thesis
      using that True len by (simp add: getitem_def nth_append)
  next
    case False
    then show ?thesis
      using that len assms by (simp add: getitem_def nth_append nat_less_iff)
  qed
  show ?thesis using init len idx by blast
qed

text \<open>The theorem at three warm-up epochs out of five, from temperature 1 to 3.\<close>

theorem teacher_temp_schedule_table_witness:
  "(0::int) \<le> 3 \<and> (3::int) \<le> 5 \<and> (0::int) \<le> 2
   \<and> DINOLoss_init 2 8 1 3 3 5 (1/10) (9/10) =
       Inr \<lparr> student_temp = 1/10, center_momentum = 9/10, ncrops = 8, center = [0, 0],
             teacher_temp_schedule = [1, 2, 3, 3, 3] \<rparr>
   \<and> getitem [1, 2, 3, 3, 3 :: real] 1 = Inr 2
   \<and> getitem [1, 2, 3, 3, 3 :: real] 4 = Inr 3"
proof -
  have h: "(0::int) \<le> 3" "(3::int) \<le> 5" "(0::int) \<le> 2" by simp_all
  have up: "[0..<nat 3] = [0, 1, 2]" "nat (5 - 3) = Suc (Suc 0)" "nat 2 = Suc (Suc 0)"
    by (simp_all add: upt_rec numeral_eq_Suc)
  note t = teacher_temp_schedule_table [OF h, of 8 1 3 "1/10" "9/10"]
  have s: "map (\<lambda>i. 1 + real i * ((3 - 1) / real_of_int (3 - 1))) [0..<nat 3]
             @ replicate (nat (5 - 3)) 3 = [1, 2, 3, 3, 3 :: real]"
    unfolding up by simp
  from t have a: "DINOLoss_init 2 8 1 3 3 5 (1/10) (9/10) =
       Inr \<lparr> student_temp = 1/10, center_momentum = 9/10, ncrops = 8, center = [0, 0],
             teacher_temp_schedule = [1, 2, 3, 3, 3] \<rparr>"
    unfolding s by (simp add: numeral_eq_Suc)
  from t have b: "\<forall>epoch. 0 \<le> epoch \<and> epoch < 5 \<longrightarrow>
      getitem [1, 2, 3, 3, 3 :: real] epoch =
        Inr (if epoch < 3 then 1 + real_of_int epoch * ((3 - 1) / real_of_int (3 - 1)) else 3)"
    unfolding s by blast
  from b [rule_format, of 1] have c: "getitem [1, 2, 3, 3, 3 :: real] 1 = Inr 2" by simp
  from b [rule_format, of 4] have d: "getitem [1, 2, 3, 3, 3 :: real] 4 = Inr 3" by simp
  show ?thesis using a c d by simp
qed

subsection \<open>Tensor operations on well-shaped operands\<close>

lemma collect_map_Inr:
  assumes "\<And>x. x \<in> set xs \<Longrightarrow> f x = Inr (g x)"
  shows "collect (map f xs) = Inr (map g xs)"
  using assms by (induction xs) auto

lemma bcast_vec_same: "length x = length y \<Longrightarrow> bcast_vec f x y = Inr (map2 f x y)"
  by (simp add: bcast_vec_def)

lemma wf_tensor_nth: "wf_tensor n d t \<Longrightarrow> i < n \<Longrightarrow> length (t ! i) = d"
  by (simp add: wf_tensor_def list_all_length)

lemma wf_tensor_row: "wf_tensor n d t \<Longrightarrow> row \<in> set t \<Longrightarrow> length row = d"
  by (simp add: wf_tensor_def list_all_iff)

lemma wf_tensor_chunk:
  assumes "wf_tensor (n * b) d t" and "i < n"
  shows "wf_tensor b d (take b (drop (i * b) t))"
proof -
  have "(i + 1) * b \<le> n * b" using assms(2) by (intro mult_le_mono1) simp
  then have "i * b + b \<le> length t" using assms(1) by (simp add: wf_tensor_def)
  then have "length (take b (drop (i * b) t)) = b" by simp
  moreover have "set (take b (drop (i * b) t)) \<subseteq> set t"
    by (meson set_take_subset set_drop_subset subset_trans)
  ultimately show ?thesis
    using assms(1) by (auto simp: wf_tensor_def list_all_iff)
qed

lemma ceil_div_exact:
  fixes n b :: nat
  assumes "0 < n"
  shows "(n * b + n - 1) div n = b"
proof -
  obtain m where n: "n = Suc m" using assms by (cases n) auto
  have "n * b + n - 1 = m + b * Suc m" by (simp add: n)
  also have "\<dots> div Suc m = b + m div Suc m"
    by (rule div_mult_self1) simp
  also have "\<dots> = b" by simp
  finally show ?thesis by (simp only: n)
qed

lemma chunk_even:
  assumes "0 < b" and "0 < n" and "length xs = n * b"
  shows "chunk xs (int n) = Inr (map (\<lambda>i. take b (drop (i * b) xs)) [0..<n])"
proof -
  have k: "(length xs + n - 1) div n = b"
    using ceil_div_exact [OF assms(2), of b] by (simp add: assms(3))
  have c: "(length xs + b - 1) div b = n"
    using ceil_div_exact [OF assms(1), of n] by (simp add: assms(3) mult.commute)
  show ?thesis
    using assms(1,2) k c by (auto simp: chunk_def split_rows_def max_def le_Suc_eq)
qed

lemma bcast_rows_same:
  assumes "wf_tensor n d a" and "wf_tensor n d b"
  shows "bcast_rows f a b = Inr (map2 (map2 f) a b)"
proof -
  have len: "length a = length b"
    using assms by (simp add: wf_tensor_def)
  have "collect (map (\<lambda>(x, y). bcast_vec f x y) (zip a b)) =
        Inr (map (\<lambda>(x, y). map2 f x y) (zip a b))"
  proof (rule collect_map_Inr)
    fix p assume p: "p \<in> set (zip a b)"
    obtain x y where xy: "p = (x, y)" by (cases p)
    have "x \<in> set a" "y \<in> set b" using p xy by (auto dest: set_zip_leftD set_zip_rightD)
    then have "length x = length y"
      using assms by (simp add: wf_tensor_row)
    then show "(case p of (x, y) \<Rightarrow> bcast_vec f x y) = Inr (case p of (x, y) \<Rightarrow> map2 f x y)"
      by (simp add: xy bcast_vec_same)
  qed
  then show ?thesis by (simp add: bcast_rows_def len)
qed

subsection \<open>Sums over lists as sums over indices\<close>

lemma sum_list_index: "sum_list (map f xs) = (\<Sum>j<length xs. f (xs ! j))"
proof -
  have "sum_list (map f xs) = (\<Sum>j = 0..<length (map f xs). map f xs ! j)"
    by (rule sum_list_sum_nth)
  also have "\<dots> = (\<Sum>j<length xs. f (xs ! j))"
    by (simp add: lessThan_atLeast0)
  finally show ?thesis .
qed

lemma softmax_nth:
  assumes "d < length row" and "length c = length row"
  shows "softmax (map (\<lambda>x. x / temp) (map2 (-) row c)) ! d = teacher_prob c temp row d"
proof -
  let ?z = "map (\<lambda>x. x / temp) (map2 (-) row c)"
  have z: "?z ! j = (row ! j - c ! j) / temp" if "j < length row" for j
    using that assms(2) by simp
  have len: "length ?z = length row" using assms(2) by simp
  have "sum_list (map exp ?z) = (\<Sum>j<length ?z. exp (?z ! j))"
    by (rule sum_list_index)
  also have "\<dots> = (\<Sum>j<length row. exp ((row ! j - c ! j) / temp))"
    unfolding len using assms(2) by (intro sum.cong) simp_all
  finally have s: "sum_list (map exp ?z) = (\<Sum>j<length row. exp ((row ! j - c ! j) / temp))" .
  have "softmax ?z ! d = exp (?z ! d) / sum_list (map exp ?z)"
    unfolding softmax_def using assms len by (simp del: map_map)
  then show ?thesis
    unfolding s teacher_prob_def using z [OF assms(1)] by simp
qed

lemma log_softmax_nth:
  assumes "d < length row"
  shows "log_softmax (map (\<lambda>x. x / st) row) ! d = student_logp st row d"
proof -
  let ?z = "map (\<lambda>x. x / st) row"
  have "sum_list (map exp ?z) = (\<Sum>j<length ?z. exp (?z ! j))"
    by (rule sum_list_index)
  also have "\<dots> = (\<Sum>j<length row. exp (row ! j / st))"
    by (rule sum.cong) simp_all
  finally have s: "sum_list (map exp ?z) = (\<Sum>j<length row. exp (row ! j / st))" .
  have "log_softmax ?z ! d = ?z ! d - ln (sum_list (map exp ?z))"
    unfolding log_softmax_def using assms by (simp del: map_map)
  then show ?thesis
    unfolding s student_logp_def using assms by simp
qed

subsection \<open>One pair term\<close>

lemma sum_list_map2_index:
  assumes "length xs = d" and "length ys = d"
  shows "sum_list (map2 f xs ys) = (\<Sum>j<d. f (xs ! j) (ys ! j))"
proof -
  have "sum_list (map (\<lambda>(x, y). f x y) (zip xs ys)) =
        (\<Sum>j<length (zip xs ys). (\<lambda>(x, y). f x y) (zip xs ys ! j))"
    by (rule sum_list_index)
  also have "\<dots> = (\<Sum>j<d. f (xs ! j) (ys ! j))"
    using assms by (intro sum.cong) simp_all
  finally show ?thesis .
qed

lemma pair_loss_index:
  assumes q: "wf_tensor b d q" and s: "wf_tensor b d s"
  shows "pair_loss q s =
    Inr ((\<Sum>i<b. \<Sum>j<d. - (q ! i ! j) * (log_softmax (s ! i) ! j)) / real b)"
proof -
  let ?a = "map (map uminus) q" and ?l = "map log_softmax s"
  have wa: "wf_tensor b d ?a"
    using q by (simp add: wf_tensor_def list_all_iff)
  have wl: "wf_tensor b d ?l"
    using s by (simp add: wf_tensor_def list_all_iff log_softmax_def)
  let ?p = "map2 (map2 (*)) ?a ?l"
  have lp: "length ?p = b"
    using q s by (simp add: wf_tensor_def)
  have row: "sum_list (?p ! i) = (\<Sum>j<d. - (q ! i ! j) * (log_softmax (s ! i) ! j))"
    if i: "i < b" for i
  proof -
    have lq: "length (q ! i) = d" and ls: "length (log_softmax (s ! i)) = d"
      using wf_tensor_nth [OF q i] wf_tensor_nth [OF wl i] i s
      by (simp_all add: wf_tensor_def)
    have "?p ! i = map2 (*) (map uminus (q ! i)) (log_softmax (s ! i))"
      using i q s by (simp add: wf_tensor_def)
    then have "sum_list (?p ! i) =
        (\<Sum>j<d. (map uminus (q ! i)) ! j * (log_softmax (s ! i) ! j))"
      using sum_list_map2_index [of "map uminus (q ! i)" d "log_softmax (s ! i)" "(*)"] lq ls
      by simp
    also have "\<dots> = (\<Sum>j<d. - (q ! i ! j) * (log_softmax (s ! i) ! j))"
      using lq by (intro sum.cong) simp_all
    finally show ?thesis .
  qed
  have "sum_list (map sum_list ?p) = (\<Sum>i<length ?p. sum_list (?p ! i))"
    by (rule sum_list_index)
  also have "\<dots> = (\<Sum>i<b. \<Sum>j<d. - (q ! i ! j) * (log_softmax (s ! i) ! j))"
    unfolding lp by (intro sum.cong) (simp_all add: row)
  finally have tot: "sum_list (map sum_list ?p) =
      (\<Sum>i<b. \<Sum>j<d. - (q ! i ! j) * (log_softmax (s ! i) ! j))" .
  have "pair_loss q s = Inr (mean (map sum_list ?p))"
    by (simp add: pair_loss_def bcast_rows_same [OF wa wl])
  moreover have "length (zip ?a ?l) = b"
    using lp by simp
  ultimately show ?thesis
    by (simp only: mean_def tot length_map)
qed

subsection \<open>The two loops\<close>

lemma inner_loop_sum:
  assumes "\<And>v. v \<in> set vs \<Longrightarrow> v \<noteq> iq \<Longrightarrow> pair_loss q (so ! v) = Inr (g (iq, v))"
  shows "inner_loop iq q so vs (t, k) =
    Inr (t + sum_list (map g (map (Pair iq) (filter (\<lambda>v. v \<noteq> iq) vs))),
         k + length (map (Pair iq) (filter (\<lambda>v. v \<noteq> iq) vs)))"
  using assms
proof (induction vs arbitrary: t k)
  case Nil
  show ?case by simp
next
  case (Cons v vs)
  show ?case
  proof (cases "v = iq")
    case True
    then show ?thesis using Cons.IH [of t k] Cons.prems by simp
  next
    case False
    then have "pair_loss q (so ! v) = Inr (g (iq, v))" using Cons.prems by simp
    then show ?thesis
      using False Cons.IH [of "t + g (iq, v)" "k + 1"] Cons.prems
      by (simp add: add.assoc)
  qed
qed

lemma outer_loop_sum:
  assumes "\<And>iq q v. (iq, q) \<in> set tq \<Longrightarrow> v < length so \<Longrightarrow> v \<noteq> iq \<Longrightarrow>
             pair_loss q (so ! v) = Inr (g (iq, v))"
  shows "outer_loop so tq (t, k) =
    Inr (t + sum_list (map g (concat (map (\<lambda>iq. map (Pair iq)
               (filter (\<lambda>v. v \<noteq> iq) [0..<length so])) (map fst tq)))),
         k + length (concat (map (\<lambda>iq. map (Pair iq)
               (filter (\<lambda>v. v \<noteq> iq) [0..<length so])) (map fst tq))))"
  using assms
proof (induction tq arbitrary: t k)
  case Nil
  show ?case by simp
next
  case (Cons p tq)
  obtain iq q where p: "p = (iq, q)" by (cases p)
  define row where "row = (\<lambda>iq. map (Pair iq) (filter (\<lambda>v. v \<noteq> iq) [0..<length so]))"
  define later where "later = concat (map row (map fst tq))"
  have inner: "inner_loop iq q so [0..<length so] (t, k) =
      Inr (t + sum_list (map g (row iq)), k + length (row iq))"
    unfolding row_def by (rule inner_loop_sum) (use Cons.prems p in auto)
  have rest: "outer_loop so tq (t + sum_list (map g (row iq)), k + length (row iq)) =
      Inr (t + sum_list (map g (row iq)) + sum_list (map g later),
           k + length (row iq) + length later)"
    unfolding later_def row_def by (rule Cons.IH) (use Cons.prems in auto)
  have "outer_loop so (p # tq) (t, k) =
      Inr (t + sum_list (map g (row iq)) + sum_list (map g later),
           k + length (row iq) + length later)"
    by (simp only: p outer_loop.simps inner rest sum.case)
  also have "\<dots> = Inr (t + sum_list (map g (row iq @ later)), k + length (row iq @ later))"
    by (simp add: add.assoc)
  also have "row iq @ later = concat (map row (map fst (p # tq)))"
    by (simp add: later_def p)
  finally show ?case
    unfolding row_def .
qed

lemma outer_loop_pairs:
  assumes "\<And>iq v. iq < length to \<Longrightarrow> v < length so \<Longrightarrow> v \<noteq> iq \<Longrightarrow>
             pair_loss (to ! iq) (so ! v) = Inr (g (iq, v))"
  shows "outer_loop so (zip [0..<length to] to) (0, 0) =
    Inr (sum_list (map g (view_pairs (length to) (length so))),
         length (view_pairs (length to) (length so)))"
proof -
  have fst: "map fst (zip [0..<length to] to) = [0..<length to]"
    by simp
  have "outer_loop so (zip [0..<length to] to) (0, 0) =
    Inr (0 + sum_list (map g (concat (map (\<lambda>iq. map (Pair iq)
               (filter (\<lambda>v. v \<noteq> iq) [0..<length so])) (map fst (zip [0..<length to] to))))),
         0 + length (concat (map (\<lambda>iq. map (Pair iq)
               (filter (\<lambda>v. v \<noteq> iq) [0..<length so])) (map fst (zip [0..<length to] to)))))"
  proof (rule outer_loop_sum)
    fix iq q v
    assume m: "(iq, q) \<in> set (zip [0..<length to] to)" and v: "v < length so" "v \<noteq> iq"
    from m have "iq < length to \<and> q = to ! iq"
      by (auto simp: set_zip)
    then show "pair_loss q (so ! v) = Inr (g (iq, v))"
      using assms v by simp
  qed
  then show ?thesis
    unfolding fst view_pairs_def by simp
qed

lemma view_pairs_2:
  assumes "2 \<le> n"
  shows "view_pairs 2 n = map (Pair 0) [1..<n] @ map (Pair 1) (0 # [2..<n])"
proof -
  have two: "[0..<2] = [0, 1]" by (simp add: upt_rec numeral_2_eq_2)
  have r0: "[0..<n] = 0 # [1..<n]"
    using assms by (simp add: upt_conv_Cons)
  have r1: "[1..<n] = 1 # [2..<n]"
    using assms by (simp add: upt_conv_Cons numeral_2_eq_2)
  have f0: "filter (\<lambda>v. v \<noteq> 0) [0..<n] = [1..<n]"
    unfolding r0 by (simp add: filter_id_conv)
  have f1: "filter (\<lambda>v. v \<noteq> 1) [0..<n] = 0 # [2..<n]"
    unfolding r0 r1 by (simp add: filter_id_conv)
  show ?thesis
    unfolding view_pairs_def two using f0 f1 by simp
qed

lemma length_view_pairs_2: "2 \<le> n \<Longrightarrow> length (view_pairs 2 n) = 2 * (n - 1)"
  by (simp add: view_pairs_2)

lemma length_view_pairs_pos: "0 < n \<Longrightarrow> 0 < length (view_pairs 2 n)"
proof -
  assume "0 < n"
  then have "0 \<in> set [0..<n]" by simp
  then have "(1, 0) \<in> set (view_pairs 2 n)"
    unfolding view_pairs_def by (auto simp: numeral_2_eq_2)
  then show ?thesis by (cases "view_pairs 2 n") auto
qed

subsection \<open>The chunks and the pair terms of a well-shaped call\<close>

lemma row_index_bound:
  fixes k n i b :: nat
  assumes "k < n" and "i < b"
  shows "k * b + i < n * b"
proof -
  have "k * b + i < k * b + b" using assms(2) by simp
  also have "\<dots> = (k + 1) * b" by simp
  also have "\<dots> \<le> n * b" using assms(1) by (intro mult_le_mono1) simp
  finally show ?thesis .
qed

lemma chunk_nth_row:
  assumes "wf_tensor (n * b) d t" and "k < n" and "i < b"
  shows "take b (drop (k * b) t) ! i = t ! (k * b + i)"
proof -
  have "k * b + i < length t"
    using row_index_bound [OF assms(2,3)] assms(1) by (simp add: wf_tensor_def)
  then show ?thesis using assms(3) by simp
qed

lemma pair_loss_chunks:
  assumes S: "wf_tensor (n * b) d S" and T: "wf_tensor (2 * b) d T"
    and c: "length c = d" and iq: "iq < 2" and v: "v < n"
  shows "pair_loss
      (take b (drop (iq * b)
         (map (\<lambda>row. softmax (map (\<lambda>x. x / temp) row)) (map (\<lambda>row. map2 (-) row c) T))))
      (take b (drop (v * b) (map (map (\<lambda>x. x / st)) S)))
    = Inr (pair_term c temp st b d S T (iq, v))"
proof -
  let ?TP = "map (\<lambda>row. softmax (map (\<lambda>x. x / temp) row)) (map (\<lambda>row. map2 (-) row c) T)"
  let ?SS = "map (map (\<lambda>x. x / st)) S"
  let ?q = "take b (drop (iq * b) ?TP)" and ?s = "take b (drop (v * b) ?SS)"
  have wTP: "wf_tensor (2 * b) d ?TP"
    using T c by (simp add: wf_tensor_def list_all_iff softmax_def)
  have wSS: "wf_tensor (n * b) d ?SS"
    using S by (simp add: wf_tensor_def list_all_iff)
  have wq: "wf_tensor b d ?q" by (rule wf_tensor_chunk [OF wTP iq])
  have ws: "wf_tensor b d ?s" by (rule wf_tensor_chunk [OF wSS v])
  have entry: "- (?q ! i ! j) * (log_softmax (?s ! i) ! j) =
      - teacher_prob c temp (T ! (iq * b + i)) j * student_logp st (S ! (v * b + i)) j"
    if i: "i < b" and j: "j < d" for i j
  proof -
    have ti: "iq * b + i < length T"
      using row_index_bound [OF iq i] T by (simp add: wf_tensor_def)
    have si: "v * b + i < length S"
      using row_index_bound [OF v i] S by (simp add: wf_tensor_def)
    have lt: "length (T ! (iq * b + i)) = d"
      using T ti by (simp add: wf_tensor_def list_all_length)
    have ls: "length (S ! (v * b + i)) = d"
      using S si by (simp add: wf_tensor_def list_all_length)
    have "?q ! i = ?TP ! (iq * b + i)" by (rule chunk_nth_row [OF wTP iq i])
    also have "\<dots> = softmax (map (\<lambda>x. x / temp) (map2 (-) (T ! (iq * b + i)) c))"
      using ti by simp
    finally have q: "?q ! i ! j = teacher_prob c temp (T ! (iq * b + i)) j"
      using softmax_nth [of j "T ! (iq * b + i)" c temp] j lt c by simp
    have "?s ! i = ?SS ! (v * b + i)" by (rule chunk_nth_row [OF wSS v i])
    also have "\<dots> = map (\<lambda>x. x / st) (S ! (v * b + i))"
      using si by simp
    finally have l: "log_softmax (?s ! i) ! j = student_logp st (S ! (v * b + i)) j"
      using log_softmax_nth [of j "S ! (v * b + i)" st] j ls by simp
    show ?thesis by (simp only: q l)
  qed
  have "pair_loss ?q ?s =
      Inr ((\<Sum>i<b. \<Sum>j<d. - (?q ! i ! j) * (log_softmax (?s ! i) ! j)) / real b)"
    by (rule pair_loss_index [OF wq ws])
  also have "(\<Sum>i<b. \<Sum>j<d. - (?q ! i ! j) * (log_softmax (?s ! i) ! j)) =
      (\<Sum>i<b. \<Sum>j<d. - teacher_prob c temp (T ! (iq * b + i)) j
                          * student_logp st (S ! (v * b + i)) j)"
    by (intro sum.cong refl) (simp only: entry lessThan_iff)
  finally show ?thesis
    by (simp only: pair_term_def prod.case)
qed

lemma forward_loops:
  assumes n: "0 < n" and b: "0 < b"
    and S: "wf_tensor (n * b) d S" and T: "wf_tensor (2 * b) d T"
    and c: "length c = d"
  shows "chunk (map (map (\<lambda>x. x / st)) S) (int n) = Inr (student_views st n b S)"
    and "collect (map (\<lambda>row. bcast_vec (-) row c) T) = Inr (map (\<lambda>row. map2 (-) row c) T)"
    and "chunk (map (\<lambda>row. softmax (map (\<lambda>x. x / temp) row)) (map (\<lambda>row. map2 (-) row c) T)) 2
          = Inr (teacher_views c temp b T)"
    and "length (teacher_views c temp b T) = 2"
    and "length (student_views st n b S) = n"
    and "\<And>iq v. iq < 2 \<Longrightarrow> v < n \<Longrightarrow>
          pair_loss (teacher_views c temp b T ! iq) (student_views st n b S ! v)
            = Inr (pair_term c temp st b d S T (iq, v))"
    and "outer_loop (student_views st n b S)
           (zip [0..<length (teacher_views c temp b T)] (teacher_views c temp b T)) (0, 0)
          = Inr (sum_list (map (pair_term c temp st b d S T) (view_pairs 2 n)),
                 length (view_pairs 2 n))"
proof -
  show sc: "chunk (map (map (\<lambda>x. x / st)) S) (int n) = Inr (student_views st n b S)"
    unfolding student_views_def
    by (rule chunk_even [OF b n]) (use S in \<open>simp add: wf_tensor_def\<close>)
  show "collect (map (\<lambda>row. bcast_vec (-) row c) T) = Inr (map (\<lambda>row. map2 (-) row c) T)"
    by (rule collect_map_Inr) (use T c in \<open>simp add: bcast_vec_same wf_tensor_row\<close>)
  have "chunk (map (\<lambda>row. softmax (map (\<lambda>x. x / temp) row)) (map (\<lambda>row. map2 (-) row c) T))
          (int 2)
      = Inr (map (\<lambda>k. take b (drop (k * b)
            (map (\<lambda>row. softmax (map (\<lambda>x. x / temp) row)) (map (\<lambda>row. map2 (-) row c) T))))
          [0..<2])"
    by (rule chunk_even [OF b]) (use T in \<open>simp_all add: wf_tensor_def\<close>)
  then show "chunk (map (\<lambda>row. softmax (map (\<lambda>x. x / temp) row))
                (map (\<lambda>row. map2 (-) row c) T)) 2 = Inr (teacher_views c temp b T)"
    unfolding teacher_views_def by (simp add: o_def)
  show lt: "length (teacher_views c temp b T) = 2"
    by (simp add: teacher_views_def)
  show ls: "length (student_views st n b S) = n"
    by (simp add: student_views_def)
  show pl: "pair_loss (teacher_views c temp b T ! iq) (student_views st n b S ! v)
            = Inr (pair_term c temp st b d S T (iq, v))" if "iq < 2" "v < n" for iq v
    using pair_loss_chunks [OF S T c that, of temp st] that
    by (simp add: teacher_views_def student_views_def o_def del: upt_Suc)
  have "outer_loop (student_views st n b S)
           (zip [0..<length (teacher_views c temp b T)] (teacher_views c temp b T)) (0, 0)
      = Inr (sum_list (map (pair_term c temp st b d S T)
               (view_pairs (length (teacher_views c temp b T)) (length (student_views st n b S)))),
             length (view_pairs (length (teacher_views c temp b T))
               (length (student_views st n b S))))"
    by (rule outer_loop_pairs) (simp add: pl lt ls)
  then show "outer_loop (student_views st n b S)
           (zip [0..<length (teacher_views c temp b T)] (teacher_views c temp b T)) (0, 0)
          = Inr (sum_list (map (pair_term c temp st b d S T) (view_pairs 2 n)),
                 length (view_pairs 2 n))"
    by (simp only: lt ls)
qed

subsection \<open>The centre update\<close>

lemma foldl_add_rows:
  assumes "length acc = d" and "\<And>row. row \<in> set rows \<Longrightarrow> length row = d"
  shows "foldl (map2 (+)) acc rows = map (\<lambda>j. acc ! j + (\<Sum>row\<leftarrow>rows. row ! j)) [0..<d]"
  using assms
proof (induction rows arbitrary: acc)
  case Nil
  then show ?case using map_nth [of acc] by auto
next
  case (Cons r rows)
  have lr: "length r = d" using Cons.prems by simp
  have "foldl (map2 (+)) (map2 (+) acc r) rows =
      map (\<lambda>j. map2 (+) acc r ! j + (\<Sum>row\<leftarrow>rows. row ! j)) [0..<d]"
    by (rule Cons.IH) (use Cons.prems lr in simp_all)
  also have "\<dots> = map (\<lambda>j. acc ! j + (\<Sum>row\<leftarrow>r # rows. row ! j)) [0..<d]"
    using Cons.prems(1) lr by (intro map_cong refl) (simp add: add.assoc)
  finally show ?case by simp
qed

lemma sum_dim0_index:
  assumes "wf_tensor m d t" and "0 < m"
  shows "sum_dim0 t = map (\<lambda>j. \<Sum>row\<leftarrow>t. row ! j) [0..<d]"
proof -
  obtain r rows where t: "t = r # rows"
    using assms by (cases t) (auto simp: wf_tensor_def)
  have "foldl (map2 (+)) r rows = map (\<lambda>j. r ! j + (\<Sum>row\<leftarrow>rows. row ! j)) [0..<d]"
    by (rule foldl_add_rows) (use assms(1) t in \<open>auto simp: wf_tensor_def list_all_iff\<close>)
  then show ?thesis by (simp add: sum_dim0_def t)
qed

lemma all_reduce_sum:
  assumes "length t = d" and "\<And>x. x \<in> set others \<Longrightarrow> length x = d"
  shows "all_reduce others t = Inr (map (\<lambda>j. t ! j + (\<Sum>x\<leftarrow>others. x ! j)) [0..<d])"
  using assms
proof (induction others arbitrary: t)
  case Nil
  then show ?case using map_nth [of t] by auto
next
  case (Cons x others)
  have lx: "length x = d" using Cons.prems by simp
  have "all_reduce others (map2 (+) t x) =
      Inr (map (\<lambda>j. map2 (+) t x ! j + (\<Sum>y\<leftarrow>others. y ! j)) [0..<d])"
    by (rule Cons.IH) (use Cons.prems lx in simp_all)
  also have "map (\<lambda>j. map2 (+) t x ! j + (\<Sum>y\<leftarrow>others. y ! j)) [0..<d] =
      map (\<lambda>j. t ! j + (\<Sum>y\<leftarrow>x # others. y ! j)) [0..<d]"
    using Cons.prems(1) lx by (intro map_cong refl) simp
  finally show ?case using Cons.prems(1) lx by simp
qed

lemma update_center_value:
  assumes T: "wf_tensor m d T" and m: "0 < m" and c: "length (center self) = d"
    and others: "\<And>x. x \<in> set others \<Longrightarrow> length x = d"
  shows "update_center self T others =
    Inr (self\<lparr>center := map (\<lambda>j. center self ! j * center_momentum self
            + ((\<Sum>row\<leftarrow>T. row ! j) + (\<Sum>x\<leftarrow>others. x ! j))
                / (real m * real (1 + length others)) * (1 - center_momentum self)) [0..<d]\<rparr>)"
proof -
  let ?cm = "center_momentum self"
  let ?red = "map (\<lambda>j. (\<Sum>row\<leftarrow>T. row ! j) + (\<Sum>x\<leftarrow>others. x ! j)) [0..<d]"
  have sd: "sum_dim0 T = map (\<lambda>j. \<Sum>row\<leftarrow>T. row ! j) [0..<d]"
    by (rule sum_dim0_index [OF T m])
  have "all_reduce others (sum_dim0 T) =
      Inr (map (\<lambda>j. sum_dim0 T ! j + (\<Sum>x\<leftarrow>others. x ! j)) [0..<d])"
    by (rule all_reduce_sum) (simp_all add: sd others)
  also have "map (\<lambda>j. sum_dim0 T ! j + (\<Sum>x\<leftarrow>others. x ! j)) [0..<d] = ?red"
    by (intro map_cong refl) (simp add: sd)
  finally have ar: "all_reduce others (sum_dim0 T) = Inr ?red" .
  let ?bc = "map (\<lambda>x. x / (real (length T) * real (get_world_size others))) ?red"
  let ?x = "map (\<lambda>c. c * ?cm) (center self)" and ?y = "map (\<lambda>b. b * (1 - ?cm)) ?bc"
  have lx: "length ?x = d" and ly: "length ?y = d" using c by simp_all
  have "bcast_vec (+) ?x ?y = Inr (map2 (+) ?x ?y)"
    by (rule bcast_vec_same) (simp add: c)
  also have "map2 (+) ?x ?y = map (\<lambda>j. center self ! j * ?cm
            + ((\<Sum>row\<leftarrow>T. row ! j) + (\<Sum>x\<leftarrow>others. x ! j))
                / (real m * real (1 + length others)) * (1 - ?cm)) [0..<d]"
  proof (rule nth_equalityI)
    show "length (map2 (+) ?x ?y) = length (map (\<lambda>j. center self ! j * ?cm
            + ((\<Sum>row\<leftarrow>T. row ! j) + (\<Sum>x\<leftarrow>others. x ! j))
                / (real m * real (1 + length others)) * (1 - ?cm)) [0..<d])"
      using c by simp
  next
    fix j assume "j < length (map2 (+) ?x ?y)"
    then have j: "j < d" using c by simp
    have lT: "length T = m" using T by (simp add: wf_tensor_def)
    show "map2 (+) ?x ?y ! j = map (\<lambda>j. center self ! j * ?cm
            + ((\<Sum>row\<leftarrow>T. row ! j) + (\<Sum>x\<leftarrow>others. x ! j))
                / (real m * real (1 + length others)) * (1 - ?cm)) [0..<d] ! j"
      using j c by (simp add: lT get_world_size_def)
  qed
  finally have bv: "bcast_vec (+) ?x ?y = Inr (map (\<lambda>j. center self ! j * ?cm
            + ((\<Sum>row\<leftarrow>T. row ! j) + (\<Sum>x\<leftarrow>others. x ! j))
                / (real m * real (1 + length others)) * (1 - ?cm)) [0..<d])" .
  show ?thesis
    unfolding update_center_def ar Let_def sum.case bv ..
qed

lemma sum_peers_index:
  assumes "\<And>p. p \<in> set peers \<Longrightarrow> wf_tensor m d p" and "0 < m" and "j < d"
  shows "(\<Sum>x\<leftarrow>map sum_dim0 peers. x ! j) = (\<Sum>p\<leftarrow>peers. \<Sum>row\<leftarrow>p. row ! j)"
proof -
  have "sum_dim0 p ! j = (\<Sum>row\<leftarrow>p. row ! j)" if "p \<in> set peers" for p
    using sum_dim0_index [OF assms(1) [OF that] assms(2)] assms(3) by simp
  then have "map (\<lambda>x. x ! j) (map sum_dim0 peers) = map (\<lambda>p. \<Sum>row\<leftarrow>p. row ! j) peers"
    by simp
  then show ?thesis by (simp only:)
qed

lemma length_concat_workers:
  assumes "\<And>p. p \<in> set peers \<Longrightarrow> wf_tensor m d p"
  shows "length (concat peers) = m * length peers"
  using assms by (induction peers) (simp_all add: wf_tensor_def)

lemma forward_value:
  assumes nc: "ncrops self = int n" and n: "0 < n" and b: "0 < b"
    and S: "wf_tensor (n * b) d S" and T: "wf_tensor (2 * b) d T"
    and c: "length (center self) = d"
    and temp: "getitem (teacher_temp_schedule self) epoch = Inr temp"
    and uc: "update_center self T others = Inr self'"
  shows "forward self S T epoch others =
    Inr (sum_list (map (pair_term (center self) temp (student_temp self) b d S T)
                    (view_pairs 2 n)) / real (length (view_pairs 2 n)), self')"
proof -
  note fl = forward_loops [OF n b S T c]
  have pos: "length (view_pairs 2 n) \<noteq> 0"
    using length_view_pairs_pos [OF n] by simp
  show ?thesis
    unfolding forward_def nc fl(1) temp fl(2) fl(3) fl(7) sum.case prod.case uc
    using pos by simp
qed

subsection \<open>The pair terms of a call\<close>

text \<open>
  C1. For \<open>ncrops = n \<ge> 3\<close> and embeddings shaped as the data model has them (\<open>n * b\<close> student
  rows and \<open>2 * b\<close> teacher rows of \<open>d\<close> entries, batch size \<open>b > 0\<close>, a centre of \<open>d\<close> entries,
  an epoch inside the schedule, non-zero temperatures), \<open>forward\<close> splits the student
  embeddings into \<open>n\<close> views and the teacher's into 2, and its loops leave \<open>n_loss_terms\<close> at
  exactly \<open>2 * (n - 1)\<close>: the pairs accumulated are teacher view 0 with student views
  \<open>1, \<dots>, n - 1\<close>, then teacher view 1 with student views \<open>0, 2, \<dots>, n - 1\<close>; each term computed
  for such a pair is the batch mean of the sum over the output dimension of
  \<open>- teacher_prob[iq] * log_softmax(student_scaled[v])\<close>, \<open>total_loss\<close> is the sum of these
  terms, and the call returns it divided by their number.
\<close>

theorem forward_pair_terms:
  assumes "3 \<le> n" and "ncrops self = int n" and "0 < b"
    and "wf_tensor (n * b) d S" and "wf_tensor (2 * b) d T"
    and "length (center self) = d"
    and "getitem (teacher_temp_schedule self) epoch = Inr temp"
    and "student_temp self \<noteq> 0" and "temp \<noteq> 0"
    and "list_all (\<lambda>x. length x = d) others"
  shows "chunk (map (map (\<lambda>x. x / student_temp self)) S) (ncrops self)
           = Inr (student_views (student_temp self) n b S)
    \<and> length (student_views (student_temp self) n b S) = n
    \<and> chunk (map (\<lambda>row. softmax (map (\<lambda>x. x / temp) row))
               (map (\<lambda>row. map2 (-) row (center self)) T)) 2
           = Inr (teacher_views (center self) temp b T)
    \<and> length (teacher_views (center self) temp b T) = 2
    \<and> outer_loop (student_views (student_temp self) n b S)
         (zip [0..<2] (teacher_views (center self) temp b T)) (0, 0)
           = Inr (sum_list (map (pair_term (center self) temp (student_temp self) b d S T)
                              (view_pairs 2 n)),
                  2 * (n - 1))
    \<and> view_pairs 2 n = map (Pair 0) [1..<n] @ map (Pair 1) (0 # [2..<n])
    \<and> (\<forall>iq v. iq < 2 \<and> v < n \<and> v \<noteq> iq \<longrightarrow>
          pair_loss (teacher_views (center self) temp b T ! iq)
                    (student_views (student_temp self) n b S ! v)
            = Inr (pair_term (center self) temp (student_temp self) b d S T (iq, v)))
    \<and> (\<exists>self'. forward self S T epoch others
           = Inr (sum_list (map (pair_term (center self) temp (student_temp self) b d S T)
                              (view_pairs 2 n)) / real (2 * (n - 1)),
                  self'))"
proof -
  have n: "0 < n" and n2: "2 \<le> n" using assms(1) by simp_all
  note fl = forward_loops [OF n assms(3) assms(4) assms(5) assms(6)]
  have len: "length (view_pairs 2 n) = 2 * (n - 1)"
    by (rule length_view_pairs_2 [OF n2])
  have uc: "\<exists>self'. update_center self T others = Inr self'"
    using update_center_value [OF assms(5) _ assms(6), of others] assms(3,10)
    by (simp add: list_all_iff)
  then obtain self' where self': "update_center self T others = Inr self'" ..
  have fw: "forward self S T epoch others
           = Inr (sum_list (map (pair_term (center self) temp (student_temp self) b d S T)
                              (view_pairs 2 n)) / real (2 * (n - 1)), self')"
    using forward_value [OF assms(2) n assms(3) assms(4) assms(5) assms(6) assms(7) self']
    by (simp only: len)
  have c1: "chunk (map (map (\<lambda>x. x / student_temp self)) S) (ncrops self)
           = Inr (student_views (student_temp self) n b S)"
    by (simp only: assms(2) fl(1))
  have ol: "outer_loop (student_views (student_temp self) n b S)
         (zip [0..<2] (teacher_views (center self) temp b T)) (0, 0)
           = Inr (sum_list (map (pair_term (center self) temp (student_temp self) b d S T)
                              (view_pairs 2 n)), 2 * (n - 1))"
    using fl(7) [of "student_temp self" temp] by (simp only: fl(4) len)
  show ?thesis
    using c1 fl(5) fl(3) fl(4) ol view_pairs_2 [OF n2] fl(6) fw by blast
qed

text \<open>
  The theorem at three views of one sample with one output dimension: four pair terms.
\<close>

theorem forward_pair_terms_witness:
  "(3::nat) \<le> 3
   \<and> wf_tensor (3 * 1) 1 [[1], [2], [3]]
   \<and> wf_tensor (2 * 1) 1 [[1], [2]]
   \<and> getitem [1 / 25 :: real] 0 = Inr (1 / 25)
   \<and> map_sum id snd
        (outer_loop (student_views (1 / 10) 3 1 [[1], [2], [3]])
           (zip [0..<2] (teacher_views [0] (1 / 25) 1 [[1], [2]])) (0, 0)) = Inr 4
   \<and> view_pairs 2 3 = [(0, 1), (0, 2), (1, 0), (1, 2)]"
proof -
  let ?self = "\<lparr> student_temp = 1 / 10, center_momentum = 9 / 10, ncrops = 3,
                 center = [0], teacher_temp_schedule = [1 / 25] \<rparr>"
  have h: "(3::nat) \<le> 3" "ncrops ?self = int 3" "(0::nat) < 1"
      "wf_tensor (3 * 1) 1 [[1], [2], [3]]" "wf_tensor (2 * 1) 1 [[1], [2]]"
      "length (center ?self) = 1"
      "getitem (teacher_temp_schedule ?self) 0 = Inr (1 / 25)"
      "student_temp ?self \<noteq> 0" "(1 / 25 :: real) \<noteq> 0"
      "list_all (\<lambda>x. length x = 1) ([] :: real list list)"
    by (simp_all add: wf_tensor_def getitem_def)
  note t = forward_pair_terms [OF h]
  have ol: "map_sum id snd
        (outer_loop (student_views (1 / 10) 3 1 [[1], [2], [3]])
           (zip [0..<2] (teacher_views [0] (1 / 25) 1 [[1], [2]])) (0, 0)) = Inr 4"
    using t by simp
  have "[1..<3] = [1, 2]" "[2..<3] = [2]"
    by (simp_all add: upt_rec numeral_eq_Suc)
  then have vp: "view_pairs 2 3 = [(0, 1), (0, 2), (1, 0), (1, 2)]"
    using t by simp
  show ?thesis
    using h(1,4,5) ol vp by (simp add: getitem_def)
qed

subsection \<open>The centre after a call\<close>

text \<open>
  C2. A call of \<open>forward\<close> on well-shaped embeddings (as in C1, with \<open>ncrops = n > 0\<close>), in a
  process group whose other workers contribute the column sums of their own teacher
  embeddings of the same shape, returns, and the engine it leaves has \<open>center\<close> replaced by
  \<open>center * center_momentum + batch_mean * (1 - center_momentum)\<close>: \<open>batch_mean\<close> is the
  all-reduced sum of the teacher rows of all the workers divided by \<open>len(teacher_output)\<close>
  times the world size, which is the number of those rows, so it is the mean of the teacher
  embedding rows of all the workers. (The update runs under \<open>torch.no_grad()\<close>; the embedding
  computes values only, so there is no gradient in it to flow through the update.)
\<close>

theorem forward_updates_center:
  assumes "ncrops self = int n" and "0 < n" and "0 < b"
    and "wf_tensor (n * b) d S" and "wf_tensor (2 * b) d T"
    and "list_all (wf_tensor (2 * b) d) peers"
    and "length (center self) = d"
    and "getitem (teacher_temp_schedule self) epoch = Inr temp"
    and "student_temp self \<noteq> 0" and "temp \<noteq> 0"
  shows "forward self S T epoch (map sum_dim0 peers)
      = Inr (sum_list (map (pair_term (center self) temp (student_temp self) b d S T)
                         (view_pairs 2 n)) / real (length (view_pairs 2 n)),
             self\<lparr>center :=
               map (\<lambda>j. center self ! j * center_momentum self
                         + batch_mean (T # peers) j * (1 - center_momentum self)) [0..<d]\<rparr>)
    \<and> all_reduce (map sum_dim0 peers) (sum_dim0 T)
        = Inr (map (\<lambda>j. \<Sum>t\<leftarrow>T # peers. \<Sum>row\<leftarrow>t. row ! j) [0..<d])
    \<and> (\<forall>j. batch_mean (T # peers) j
          = (\<Sum>t\<leftarrow>T # peers. \<Sum>row\<leftarrow>t. row ! j)
              / (real (length T) * real (get_world_size (map sum_dim0 peers))))
    \<and> length (concat (T # peers)) = length T * get_world_size (map sum_dim0 peers)"
proof -
  let ?others = "map sum_dim0 peers"
  let ?cm = "center_momentum self"
  have m: "0 < 2 * b" using assms(3) by simp
  have peers: "wf_tensor (2 * b) d p" if "p \<in> set peers" for p
    using assms(6) that by (simp add: list_all_iff)
  have lT: "length T = 2 * b" using assms(5) by (simp add: wf_tensor_def)
  have lo: "length x = d" if x: "x \<in> set ?others" for x
  proof -
    obtain p where p: "p \<in> set peers" "x = sum_dim0 p" using x by auto
    show ?thesis using sum_dim0_index [OF peers [OF p(1)] m] p(2) by simp
  qed
  have sp: "(\<Sum>x\<leftarrow>?others. x ! j) = (\<Sum>p\<leftarrow>peers. \<Sum>row\<leftarrow>p. row ! j)" if "j < d" for j
    by (rule sum_peers_index [OF peers m that])
  have rows: "length (concat (T # peers)) = length T * get_world_size ?others"
    using length_concat_workers [of peers "2 * b" d] peers lT
    by (simp add: get_world_size_def)
  have bm: "batch_mean (T # peers) j
      = (\<Sum>t\<leftarrow>T # peers. \<Sum>row\<leftarrow>t. row ! j)
          / (real (length T) * real (get_world_size ?others))" for j
    unfolding batch_mean_def rows by simp
  have ar: "all_reduce ?others (sum_dim0 T)
        = Inr (map (\<lambda>j. \<Sum>t\<leftarrow>T # peers. \<Sum>row\<leftarrow>t. row ! j) [0..<d])"
  proof -
    have "all_reduce ?others (sum_dim0 T)
        = Inr (map (\<lambda>j. sum_dim0 T ! j + (\<Sum>x\<leftarrow>?others. x ! j)) [0..<d])"
      by (rule all_reduce_sum) (simp_all add: sum_dim0_index [OF assms(5) m] lo)
    also have "map (\<lambda>j. sum_dim0 T ! j + (\<Sum>x\<leftarrow>?others. x ! j)) [0..<d]
        = map (\<lambda>j. \<Sum>t\<leftarrow>T # peers. \<Sum>row\<leftarrow>t. row ! j) [0..<d]"
      by (intro map_cong refl)
        (simp add: sum_dim0_index [OF assms(5) m] sp del: map_map)
    finally show ?thesis .
  qed
  have "update_center self T ?others =
    Inr (self\<lparr>center := map (\<lambda>j. center self ! j * ?cm
            + ((\<Sum>row\<leftarrow>T. row ! j) + (\<Sum>x\<leftarrow>?others. x ! j))
                / (real (2 * b) * real (1 + length ?others)) * (1 - ?cm)) [0..<d]\<rparr>)"
    by (rule update_center_value [OF assms(5) m assms(7)]) (rule lo)
  also have "map (\<lambda>j. center self ! j * ?cm
            + ((\<Sum>row\<leftarrow>T. row ! j) + (\<Sum>x\<leftarrow>?others. x ! j))
                / (real (2 * b) * real (1 + length ?others)) * (1 - ?cm)) [0..<d]
      = map (\<lambda>j. center self ! j * ?cm + batch_mean (T # peers) j * (1 - ?cm)) [0..<d]"
    by (intro map_cong refl)
      (simp add: bm lT get_world_size_def sp del: map_map)
  finally have uc: "update_center self T ?others =
    Inr (self\<lparr>center :=
           map (\<lambda>j. center self ! j * ?cm + batch_mean (T # peers) j * (1 - ?cm)) [0..<d]\<rparr>)" .
  have fw: "forward self S T epoch ?others
      = Inr (sum_list (map (pair_term (center self) temp (student_temp self) b d S T)
                         (view_pairs 2 n)) / real (length (view_pairs 2 n)),
             self\<lparr>center :=
               map (\<lambda>j. center self ! j * ?cm + batch_mean (T # peers) j * (1 - ?cm)) [0..<d]\<rparr>)"
    by (rule forward_value [OF assms(1) assms(2) assms(3) assms(4) assms(5) assms(7) assms(8) uc])
  show ?thesis
    using fw ar bm rows by blast
qed

text \<open>
  The theorem for two workers with two views of one sample each and one output dimension:
  the teacher rows are 2, 4 here and 6, 8 on the other worker, their mean is 5, and with
  momentum 1/2 the centre moves from 0 to 5/2.
\<close>

theorem forward_updates_center_witness:
  "wf_tensor (2 * 1) 1 [[1], [2]]
   \<and> wf_tensor (2 * 1) 1 [[2], [4]]
   \<and> list_all (wf_tensor (2 * 1) 1) [[[6], [8]]]
   \<and> getitem [1 / 25 :: real] 0 = Inr (1 / 25)
   \<and> center (engine_after
         \<lparr> student_temp = 1 / 10, center_momentum = 1 / 2, ncrops = 2,
           center = [0], teacher_temp_schedule = [1 / 25] \<rparr>
         (forward
           \<lparr> student_temp = 1 / 10, center_momentum = 1 / 2, ncrops = 2,
             center = [0], teacher_temp_schedule = [1 / 25] \<rparr>
           [[1], [2]] [[2], [4]] 0 (map sum_dim0 [[[6], [8]]]))) = [5 / 2]
   \<and> batch_mean [[[2], [4]], [[6], [8]]] 0 = 5"
proof -
  let ?self = "\<lparr> student_temp = 1 / 10, center_momentum = 1 / 2, ncrops = 2,
                 center = [0], teacher_temp_schedule = [1 / 25] \<rparr>"
  have h: "ncrops ?self = int 2" "(0::nat) < 2" "(0::nat) < 1"
      "wf_tensor (2 * 1) 1 [[1], [2]]" "wf_tensor (2 * 1) 1 [[2], [4]]"
      "list_all (wf_tensor (2 * 1) 1) [[[6], [8]]]"
      "length (center ?self) = 1"
      "getitem (teacher_temp_schedule ?self) 0 = Inr (1 / 25)"
      "student_temp ?self \<noteq> 0" "(1 / 25 :: real) \<noteq> 0"
    by (simp_all add: wf_tensor_def getitem_def)
  note t = forward_updates_center [OF h]
  have bm: "batch_mean [[[2], [4]], [[6], [8]]] 0 = 5"
    by (simp add: batch_mean_def)
  have "center (engine_after ?self
          (forward ?self [[1], [2]] [[2], [4]] 0 (map sum_dim0 [[[6], [8]]]))) = [5 / 2]"
    using t by (simp add: engine_after_def bm)
  then show ?thesis
    using h(4,5,6) bm by (simp add: getitem_def)
qed

subsection \<open>What a call leaves untouched\<close>








subsection \<open>The divisor of the loss\<close>







section \<open>Properties of the architecture choice\<close>

text \<open>
  C9. When the architecture name (after \<open>deit\<close> is replaced by \<open>vit\<close>) is not a name of the
  ViT module, of the XCiT hub list or of torchvision, the chain only prints
  \<open>Unknow architecture: ...\<close> and raises nothing: it ends normally with \<open>student\<close>, \<open>teacher\<close> and
  \<open>embed_dim\<close> unbound, and control goes on to the statement that wraps the networks, whose
  read of the unbound \<open>student\<close> is what then raises \<open>UnboundLocalError\<close>.
\<close>

theorem unknown_arch_only_logged:
  assumes "replace ''deit'' ''vit'' arch \<notin> set (vits_keys z)"
    and "replace ''deit'' ''vit'' arch \<notin> set (xcit_list z)"
    and "replace ''deit'' ''vit'' arch \<notin> set (torchvision_keys z)"
  shows "select_arch z (replace ''deit'' ''vit'' arch) out
           = ((None, None, None),
              out @ [''Unknow architecture: '' @ replace ''deit'' ''vit'' arch])
    \<and> build_networks z wrap arch out
           = (Inl UnboundLocalError,
              out @ [''Unknow architecture: '' @ replace ''deit'' ''vit'' arch])"
  using assms by (simp add: select_arch_def build_networks_def wrap_networks_def)

text \<open>
  The theorem at \<open>--arch xcit\<close>, a name the argument parser accepts and no branch knows,
  and, for comparison, \<open>deit_small\<close>, which the first branch builds as \<open>vit_small\<close>.
\<close>

theorem unknown_arch_only_logged_witness:
  "replace ''deit'' ''vit'' ''xcit'' \<notin> set [''vit_tiny'', ''vit_small'', ''vit_base'']
   \<and> replace ''deit'' ''vit'' ''xcit'' \<notin> set [''xcit_nano_12_p16'']
   \<and> replace ''deit'' ''vit'' ''xcit'' \<notin> set [''resnet50'']
   \<and> build_networks
        \<lparr> vits_keys = [''vit_tiny'', ''vit_small'', ''vit_base''],
          vits_build = (\<lambda>a. (a, a, 384)),
          xcit_list = [''xcit_nano_12_p16''], xcit_build = (\<lambda>a. (a, a, 128)),
          torchvision_keys = [''resnet50''], torchvision_build = (\<lambda>a. (a, a, 2048)) \<rparr>
        (\<lambda>net e. (net, e)) ''xcit'' []
       = (Inl UnboundLocalError, [''Unknow architecture: xcit''])
   \<and> build_networks
        \<lparr> vits_keys = [''vit_tiny'', ''vit_small'', ''vit_base''],
          vits_build = (\<lambda>a. (a, a, 384)),
          xcit_list = [''xcit_nano_12_p16''], xcit_build = (\<lambda>a. (a, a, 128)),
          torchvision_keys = [''resnet50''], torchvision_build = (\<lambda>a. (a, a, 2048)) \<rparr>
        (\<lambda>net e. (net, e)) ''deit_small'' []
       = (Inr ((''vit_small'', 384), (''vit_small'', 384)), [])"
proof -
  let ?z = "\<lparr> vits_keys = [''vit_tiny'', ''vit_small'', ''vit_base''],
          vits_build = (\<lambda>a. (a, a, 384 :: int)),
          xcit_list = [''xcit_nano_12_p16''], xcit_build = (\<lambda>a. (a, a, 128)),
          torchvision_keys = [''resnet50''], torchvision_build = (\<lambda>a. (a, a, 2048)) \<rparr>"
  have r: "replace ''deit'' ''vit'' ''xcit'' = ''xcit''" by simp
  have h: "replace ''deit'' ''vit'' ''xcit'' \<notin> set (vits_keys ?z)"
      "replace ''deit'' ''vit'' ''xcit'' \<notin> set (xcit_list ?z)"
      "replace ''deit'' ''vit'' ''xcit'' \<notin> set (torchvision_keys ?z)"
    unfolding r by simp_all
  note t = unknown_arch_only_logged [OF h, of "[]" "\<lambda>net e. (net, e)"]
  have d: "replace ''deit'' ''vit'' ''deit_small'' = ''vit_small''" by simp
  have b: "build_networks ?z (\<lambda>net e. (net, e)) ''deit_small'' []
       = (Inr ((''vit_small'', 384), (''vit_small'', 384)), [])"
    unfolding build_networks_def d by (simp add: select_arch_def wrap_networks_def)
  show ?thesis
    using t h b unfolding r by simp
qed

section \<open>Properties of the training loop\<close>

subsection \<open>A non-finite loss\<close>

lemma train_batches_append:
  assumes "train_batches env lrs wds ms n epoch st_epoch j pre = Continue st"
  shows "train_batches env lrs wds ms n epoch st_epoch j (pre @ tl_batches)
       = train_batches env lrs wds ms n epoch st (j + length pre) tl_batches"
  using assms
proof (induction pre arbitrary: st_epoch j)
  case Nil
  then show ?case by simp
next
  case (Cons images pre)
  from Cons.prems obtain st1 where
    it: "train_iteration env lrs wds ms n epoch st_epoch j images = Continue st1"
    and r: "train_batches env lrs wds ms n epoch st1 (Suc j) pre = Continue st"
    by (auto split: outcome.splits)
  show ?case
    using Cons.IH [OF r] it by simp
qed

lemma train_epochs_append:
  assumes "train_epochs env lrs wds ms data_loader st_run earlier = Continue st_epoch"
  shows "train_epochs env lrs wds ms data_loader st_run (earlier @ tl_epochs)
       = train_epochs env lrs wds ms data_loader st_epoch tl_epochs"
  using assms
proof (induction earlier arbitrary: st_run)
  case Nil
  then show ?case by simp
next
  case (Cons epoch earlier)
  from Cons.prems obtain st1 where
    e: "train_one_epoch env lrs wds ms epoch st_run (data_loader epoch) = Continue st1"
    and r: "train_epochs env lrs wds ms data_loader st1 earlier = Continue st_epoch"
    by (auto split: outcome.splits)
  show ?case
    using Cons.IH [OF r] e by simp
qed

text \<open>
  C6, as the code has it. In every iteration that gets as far as computing the loss, at
  whatever batch of whatever epoch of the run, a non-finite loss ends the run at once: the
  iteration prints the line \<open>Loss is <loss>, stopping training\<close> and calls \<open>sys.exit(1)\<close>, a
  non-zero status, before the student, the teacher or the optimizer are touched. The exit
  is the outcome of the rest of the epoch, of \<open>train_one_epoch\<close> and of the whole loop over
  the epochs, whatever batches and epochs were completed before it and whatever batches
  and epochs would have followed: no later batch and no later epoch is run, so nothing is
  retried. The printed line holds the loss value; it does not hold the step.
\<close>

theorem nonfinite_loss_exits:
  assumes "set_schedules lrs wds (n * epoch + int i) 0 (param_groups st) = Inr groups"
    and "dino_loss env (dino_loss_state st) (student_forward env (student st) images)
           (teacher_forward env (teacher st) (take 2 images)) epoch = Inr (loss, loss_state')"
    and "\<not> isfinite loss"
    and "st_exit = st\<lparr>param_groups := groups, dino_loss_state := loss_state',
            stdout := stdout st @ [''Loss is '' @ float_str env loss @ '', stopping training'']\<rparr>"
  shows "train_iteration env lrs wds ms n epoch st i images = SysExit 1 st_exit
    \<and> (1 :: int) \<noteq> 0
    \<and> train_batches env lrs wds ms n epoch st i (images # rest) = SysExit 1 st_exit
    \<and> (i = j + length pre
         \<and> train_batches env lrs wds ms n epoch st_epoch j pre = Continue st
         \<longrightarrow> train_batches env lrs wds ms n epoch st_epoch j (pre @ images # rest)
               = SysExit 1 st_exit)
    \<and> (i = length pre \<and> n = int (length (pre @ images # rest))
         \<and> data_loader epoch = pre @ images # rest
         \<and> train_batches env lrs wds ms n epoch st_epoch 0 pre = Continue st
         \<and> train_epochs env lrs wds ms data_loader st_run earlier = Continue st_epoch
         \<longrightarrow> train_one_epoch env lrs wds ms epoch st_epoch (data_loader epoch) = SysExit 1 st_exit
             \<and> train_epochs env lrs wds ms data_loader st_run (earlier @ epoch # later)
                 = SysExit 1 st_exit)
    \<and> student st_exit = student st \<and> teacher st_exit = teacher st
    \<and> optimizer_state st_exit = optimizer_state st
    \<and> stdout st_exit = stdout st @ [''Loss is '' @ float_str env loss @ '', stopping training'']"
proof -
  have it: "train_iteration env lrs wds ms n epoch st i images = SysExit 1 st_exit"
    using assms by (simp add: train_iteration_def Let_def)
  then have tb: "train_batches env lrs wds ms n epoch st i (images # rest) = SysExit 1 st_exit"
    by simp
  have pre: "train_batches env lrs wds ms n epoch st1 i1 (pre @ images # rest) = SysExit 1 st_exit"
    if "i = i1 + length pre" "train_batches env lrs wds ms n epoch st1 i1 pre = Continue st"
    for st1 i1
    using train_batches_append [OF that(2), of "images # rest"] tb that(1) by simp
  have run: "train_one_epoch env lrs wds ms epoch st_epoch (data_loader epoch) = SysExit 1 st_exit
             \<and> train_epochs env lrs wds ms data_loader st_run (earlier @ epoch # later)
                 = SysExit 1 st_exit"
    if hi: "i = length pre" and hn: "n = int (length (pre @ images # rest))"
      and hd: "data_loader epoch = pre @ images # rest"
      and hb: "train_batches env lrs wds ms n epoch st_epoch 0 pre = Continue st"
      and he: "train_epochs env lrs wds ms data_loader st_run earlier = Continue st_epoch"
  proof -
    have "train_batches env lrs wds ms n epoch st_epoch 0 (pre @ images # rest) = SysExit 1 st_exit"
      by (rule pre [of 0 st_epoch]) (simp_all add: hi hb)
    then have ep: "train_one_epoch env lrs wds ms epoch st_epoch (data_loader epoch) = SysExit 1 st_exit"
      unfolding train_one_epoch_def hd hn [symmetric] .
    have "train_epochs env lrs wds ms data_loader st_run (earlier @ epoch # later)
        = train_epochs env lrs wds ms data_loader st_epoch (epoch # later)"
      by (rule train_epochs_append [OF he])
    also have "\<dots> = SysExit 1 st_exit"
      using ep by simp
    finally show ?thesis using ep by simp
  qed
  have ne: "(1 :: int) \<noteq> 0" by simp
  have fields: "student st_exit = student st \<and> teacher st_exit = teacher st
    \<and> optimizer_state st_exit = optimizer_state st
    \<and> stdout st_exit = stdout st @ [''Loss is '' @ float_str env loss @ '', stopping training'']"
    by (simp add: assms(4))
  show ?thesis
    using it ne tb pre [of j st_epoch] run fields by blast
qed


text \<open>
  The theorem in a run of three epochs of two batches each, with a loss module that returns
  a finite loss three times and then \<open>inf\<close>: epoch 0 and the first batch of epoch 1 are
  completed, the second batch of epoch 1 (step 3) exits with status 1, and epoch 2 is never
  run.
\<close>

theorem nonfinite_loss_exits_witness:
  "set_schedules [1, 2, 3, 4, 5, 6] [7, 8, 9, 10, 11, 12] (2 * 1 + int 1) 0
      [\<lparr> lr = 3, weight_decay = 9 \<rparr>] = Inr [\<lparr> lr = 4, weight_decay = 10 \<rparr>]
   \<and> \<not> isfinite PosInf
   \<and> train_epochs
        (\<lparr> teacher_forward = (\<lambda>ps views. ()), student_forward = (\<lambda>ps views. ()),
          dino_loss = (\<lambda>l s t e. Inr (if l < 3 then Finite 1 else PosInf, Suc l)),
          student_step = (\<lambda>gs ost e views sp tp l. Inr (sp, ost)),
          float_str = (\<lambda>f. case f of Finite x \<Rightarrow> ''finite'' | PosInf \<Rightarrow> ''inf''
                             | NegInf \<Rightarrow> ''-inf'' | NaN \<Rightarrow> ''nan'') \<rparr> :: (unit, unit, unit, nat) capabilities)
        [1, 2, 3, 4, 5, 6] [7, 8, 9, 10, 11, 12] [1 / 2, 1 / 2, 1 / 2, 1 / 2, 1 / 2, 1 / 2] (\<lambda>epoch. [[], []])
        (\<lparr> student = [], teacher = [], param_groups = [\<lparr> lr = 0, weight_decay = 0 \<rparr>],
          optimizer_state = (), dino_loss_state = 0, stdout = [] \<rparr>)
        [0]
      = Continue
         (\<lparr> student = [], teacher = [], param_groups = [\<lparr> lr = 2, weight_decay = 8 \<rparr>],
          optimizer_state = (), dino_loss_state = 2, stdout = [] \<rparr>)
   \<and> train_batches
        (\<lparr> teacher_forward = (\<lambda>ps views. ()), student_forward = (\<lambda>ps views. ()),
          dino_loss = (\<lambda>l s t e. Inr (if l < 3 then Finite 1 else PosInf, Suc l)),
          student_step = (\<lambda>gs ost e views sp tp l. Inr (sp, ost)),
          float_str = (\<lambda>f. case f of Finite x \<Rightarrow> ''finite'' | PosInf \<Rightarrow> ''inf''
                             | NegInf \<Rightarrow> ''-inf'' | NaN \<Rightarrow> ''nan'') \<rparr> :: (unit, unit, unit, nat) capabilities)
        [1, 2, 3, 4, 5, 6] [7, 8, 9, 10, 11, 12] [1 / 2, 1 / 2, 1 / 2, 1 / 2, 1 / 2, 1 / 2] 2 1
        (\<lparr> student = [], teacher = [], param_groups = [\<lparr> lr = 2, weight_decay = 8 \<rparr>],
          optimizer_state = (), dino_loss_state = 2, stdout = [] \<rparr>)
        0 [[]]
      = Continue
         (\<lparr> student = [], teacher = [], param_groups = [\<lparr> lr = 3, weight_decay = 9 \<rparr>],
          optimizer_state = (), dino_loss_state = 3, stdout = [] \<rparr>)
   \<and> train_epochs
        (\<lparr> teacher_forward = (\<lambda>ps views. ()), student_forward = (\<lambda>ps views. ()),
          dino_loss = (\<lambda>l s t e. Inr (if l < 3 then Finite 1 else PosInf, Suc l)),
          student_step = (\<lambda>gs ost e views sp tp l. Inr (sp, ost)),
          float_str = (\<lambda>f. case f of Finite x \<Rightarrow> ''finite'' | PosInf \<Rightarrow> ''inf''
                             | NegInf \<Rightarrow> ''-inf'' | NaN \<Rightarrow> ''nan'') \<rparr> :: (unit, unit, unit, nat) capabilities)
        [1, 2, 3, 4, 5, 6] [7, 8, 9, 10, 11, 12] [1 / 2, 1 / 2, 1 / 2, 1 / 2, 1 / 2, 1 / 2] (\<lambda>epoch. [[], []])
        (\<lparr> student = [], teacher = [], param_groups = [\<lparr> lr = 0, weight_decay = 0 \<rparr>],
          optimizer_state = (), dino_loss_state = 0, stdout = [] \<rparr>)
        [0, 1, 2]
      = SysExit 1
         (\<lparr> student = [], teacher = [], param_groups = [\<lparr> lr = 4, weight_decay = 10 \<rparr>],
          optimizer_state = (), dino_loss_state = 4, stdout = [''Loss is inf, stopping training''] \<rparr>)"
proof -
  let ?env = "\<lparr> teacher_forward = (\<lambda>ps views. ()), student_forward = (\<lambda>ps views. ()),
          dino_loss = (\<lambda>l s t e. Inr (if l < 3 then Finite 1 else PosInf, Suc l)),
          student_step = (\<lambda>gs ost e views sp tp l. Inr (sp, ost)),
          float_str = (\<lambda>f. case f of Finite x \<Rightarrow> ''finite'' | PosInf \<Rightarrow> ''inf''
                             | NegInf \<Rightarrow> ''-inf'' | NaN \<Rightarrow> ''nan'') \<rparr> :: (unit, unit, unit, nat) capabilities"
  let ?first = "\<lparr> student = [], teacher = [], param_groups = [\<lparr> lr = 0, weight_decay = 0 \<rparr>],
          optimizer_state = (), dino_loss_state = 0, stdout = [] \<rparr> :: (unit, nat) train_state"
  let ?second = "\<lparr> student = [], teacher = [], param_groups = [\<lparr> lr = 2, weight_decay = 8 \<rparr>],
          optimizer_state = (), dino_loss_state = 2, stdout = [] \<rparr> :: (unit, nat) train_state"
  let ?third = "\<lparr> student = [], teacher = [], param_groups = [\<lparr> lr = 3, weight_decay = 9 \<rparr>],
          optimizer_state = (), dino_loss_state = 3, stdout = [] \<rparr> :: (unit, nat) train_state"
  let ?lrs = "[1, 2, 3, 4, 5, 6] :: real list"
  let ?wds = "[7, 8, 9, 10, 11, 12] :: real list"
  let ?ms = "[1 / 2, 1 / 2, 1 / 2, 1 / 2, 1 / 2, 1 / 2] :: real list"
  have h1: "set_schedules ?lrs ?wds (2 * 1 + int 1) 0 (param_groups ?third)
      = Inr [\<lparr> lr = 4, weight_decay = 10 \<rparr>]"
    by (simp add: getitem_def)
  have h2: "dino_loss ?env (dino_loss_state ?third) (student_forward ?env (student ?third) [])
           (teacher_forward ?env (teacher ?third) (take 2 [])) 1 = Inr (PosInf, Suc 3)"
    by simp
  have h3: "\<not> isfinite PosInf" by simp
  have e0: "train_epochs ?env ?lrs ?wds ?ms (\<lambda>epoch. [[], []]) ?first [0] = Continue ?second"
    by (simp add: train_one_epoch_def train_iteration_def getitem_def)
  have b0: "train_batches ?env ?lrs ?wds ?ms 2 1 ?second 0 [[]] = Continue ?third"
    by (simp add: train_iteration_def getitem_def)
  note t = nonfinite_loss_exits [where pre = "[[]]" and rest = "[]" and i = 1 and n = 2
      and ms = ?ms and ?st_epoch = ?second and ?st_run = ?first and earlier = "[0]" and later = "[2]"
      and data_loader = "\<lambda>epoch. [[], []]", OF h1 h2 h3 refl]
  from t e0 b0 have "train_epochs ?env ?lrs ?wds ?ms (\<lambda>epoch. [[], []]) ?first ([0] @ 1 # [2])
      = SysExit 1 (?third\<lparr>param_groups := [\<lparr> lr = 4, weight_decay = 10 \<rparr>],
            dino_loss_state := Suc 3,
            stdout := stdout ?third @ [''Loss is '' @ float_str ?env PosInf @ '', stopping training'']\<rparr>)"
    by simp
  then show ?thesis
    using h1 e0 b0 by simp
qed

text \<open>
  The claim as stated fails on what is reported: at step 0 and at step 1 of the same run the
  line printed is the same, so it does not tell the step.
\<close>

theorem nonfinite_loss_report_counterexample:
  "train_iteration
        (\<lparr> teacher_forward = (\<lambda>ps views. ()), student_forward = (\<lambda>ps views. ()),
          dino_loss = (\<lambda>l s t e. Inr (PosInf, Suc l)),
          student_step = (\<lambda>gs ost e views sp tp l. Inr (sp, ost)),
          float_str = (\<lambda>f. case f of Finite x \<Rightarrow> ''finite'' | PosInf \<Rightarrow> ''inf''
                             | NegInf \<Rightarrow> ''-inf'' | NaN \<Rightarrow> ''nan'') \<rparr> :: (unit, unit, unit, nat) capabilities)
        [1, 2] [3, 4] [5, 6] 2 0
        (\<lparr> student = [], teacher = [], param_groups = [\<lparr> lr = 0, weight_decay = 0 \<rparr>],
          optimizer_state = (), dino_loss_state = 0, stdout = [] \<rparr>)
        0 []
      = SysExit 1
         (\<lparr> student = [], teacher = [], param_groups = [\<lparr> lr = 1, weight_decay = 3 \<rparr>],
          optimizer_state = (), dino_loss_state = Suc 0, stdout = [''Loss is inf, stopping training''] \<rparr>)
   \<and> train_iteration
        (\<lparr> teacher_forward = (\<lambda>ps views. ()), student_forward = (\<lambda>ps views. ()),
          dino_loss = (\<lambda>l s t e. Inr (PosInf, Suc l)),
          student_step = (\<lambda>gs ost e views sp tp l. Inr (sp, ost)),
          float_str = (\<lambda>f. case f of Finite x \<Rightarrow> ''finite'' | PosInf \<Rightarrow> ''inf''
                             | NegInf \<Rightarrow> ''-inf'' | NaN \<Rightarrow> ''nan'') \<rparr> :: (unit, unit, unit, nat) capabilities)
        [1, 2] [3, 4] [5, 6] 2 0
        (\<lparr> student = [], teacher = [], param_groups = [\<lparr> lr = 0, weight_decay = 0 \<rparr>],
          optimizer_state = (), dino_loss_state = 0, stdout = [] \<rparr>)
        1 []
      = SysExit 1
         (\<lparr> student = [], teacher = [], param_groups = [\<lparr> lr = 2, weight_decay = 4 \<rparr>],
          optimizer_state = (), dino_loss_state = Suc 0, stdout = [''Loss is inf, stopping training''] \<rparr>)"
  by (simp add: train_iteration_def getitem_def)

subsection \<open>The EMA update of the teacher\<close>

lemma ema_tensor_same:
  "length q = length k \<Longrightarrow>
     ema_tensor m q k = Inr (map2 (\<lambda>x y. m * x + (1 - m) * y) k q)"
  by (simp add: ema_tensor_def mult.commute)

lemma ema_update_same_shape:
  assumes "list_all2 (\<lambda>q k. length (data q) = length (data k)) qs ks"
  shows "ema_update m qs ks =
    Inr (map2 (\<lambda>q k. k\<lparr>data := map2 (\<lambda>x y. m * x + (1 - m) * y) (data k) (data q)\<rparr>) qs ks)"
  using assms
  by (induction rule: list_all2_induct) (simp_all add: ema_tensor_same)

lemma ema_update_keeps:
  assumes "ema_update m qs ks = Inr ks'"
  shows "map requires_grad ks' = map requires_grad ks \<and> map name ks' = map name ks"
  using assms
proof (induction m qs ks arbitrary: ks' rule: ema_update.induct)
  case (1 m ks)
  then show ?case by simp
next
  case (2 m param_q qs)
  then show ?case by simp
next
  case (3 m param_q qs param_k ks)
  from "3.prems" obtain d ks0 where
    d: "ema_tensor m (data param_q) (data param_k) = Inr d"
    and r: "ema_update m qs ks = Inr ks0"
    and k: "ks' = param_k\<lparr>data := d\<rparr> # ks0"
    by (auto split: sum.splits)
  show ?case using "3.IH" [OF d r] k by simp
qed

text \<open>
  C3. In an iteration with a finite loss, after the student update has returned the new
  student parameters, the teacher is replaced, parameter by parameter of the zipped lists,
  by \<open>m * teacher_param + (1 - m) * student_param\<close>, \<open>m\<close> being the momentum schedule at the
  global step \<open>len(data_loader) * epoch + i\<close>; only the values are written, so every
  \<open>requires_grad\<close> flag stays. In particular, with \<open>m = 0.9\<close>, student values all 2 and teacher
  values all 1, every teacher value becomes 1.1, and a teacher whose flags are off, as
  \<open>train_dino\<close> leaves them, still has them off. (The update runs under \<open>torch.no_grad()\<close> on
  \<open>.data\<close>; the embedding has values and flags only, no gradient graph.)
\<close>

theorem teacher_ema_update:
  assumes "set_schedules lrs wds (n * epoch + int i) 0 (param_groups st) = Inr groups"
    and "dino_loss env (dino_loss_state st) (student_forward env (student st) images)
           (teacher_forward env (teacher st) (take 2 images)) epoch = Inr (loss, loss_state')"
    and "isfinite loss"
    and "student_step env groups (optimizer_state st) epoch images (student st) (teacher st)
           (dino_loss_state st) = Inr (student', optimizer')"
    and "getitem ms (n * epoch + int i) = Inr m"
    and "list_all2 (\<lambda>q k. length (data q) = length (data k)) student' (teacher st)"
  shows "train_iteration env lrs wds ms n epoch st i images
      = Continue (st\<lparr>student := student',
            teacher := map2 (\<lambda>q k. k\<lparr>data := map2 (\<lambda>x y. m * x + (1 - m) * y) (data k) (data q)\<rparr>)
                         student' (teacher st),
            param_groups := groups, optimizer_state := optimizer',
            dino_loss_state := loss_state'\<rparr>)
    \<and> map requires_grad
          (map2 (\<lambda>q k. k\<lparr>data := map2 (\<lambda>x y. m * x + (1 - m) * y) (data k) (data q)\<rparr>)
             student' (teacher st))
        = map requires_grad (teacher st)
    \<and> (m = 9 / 10
        \<and> (\<forall>q \<in> set student'. \<forall>y \<in> set (data q). y = 2)
        \<and> (\<forall>k \<in> set (teacher st). (\<forall>x \<in> set (data k). x = 1) \<and> \<not> requires_grad k)
       \<longrightarrow> (\<forall>k' \<in> set (map2 (\<lambda>q k. k\<lparr>data := map2 (\<lambda>x y. m * x + (1 - m) * y) (data k) (data q)\<rparr>)
                           student' (teacher st)).
              (\<forall>x \<in> set (data k'). x = 11 / 10) \<and> \<not> requires_grad k'))"
proof -
  let ?t = "map2 (\<lambda>q k. k\<lparr>data := map2 (\<lambda>x y. m * x + (1 - m) * y) (data k) (data q)\<rparr>)
              student' (teacher st)"
  have eu: "ema_update m student' (teacher st) = Inr ?t"
    by (rule ema_update_same_shape [OF assms(6)])
  have it: "train_iteration env lrs wds ms n epoch st i images
      = Continue (st\<lparr>student := student', teacher := ?t,
            param_groups := groups, optimizer_state := optimizer',
            dino_loss_state := loss_state'\<rparr>)"
    using assms(1-5) eu by (simp add: train_iteration_def Let_def)
  have rg: "map requires_grad ?t = map requires_grad (teacher st)"
    using ema_update_keeps [OF eu] by simp
  have num: "(\<forall>x \<in> set (data k'). x = 11 / 10) \<and> \<not> requires_grad k'"
    if m: "m = 9 / 10" and q2: "\<forall>q \<in> set student'. \<forall>y \<in> set (data q). y = 2"
      and k1: "\<forall>k \<in> set (teacher st). (\<forall>x \<in> set (data k). x = 1) \<and> \<not> requires_grad k"
      and k': "k' \<in> set ?t" for k'
  proof -
    obtain q k where qk: "(q, k) \<in> set (zip student' (teacher st))"
      and e: "k' = k\<lparr>data := map2 (\<lambda>x y. m * x + (1 - m) * y) (data k) (data q)\<rparr>"
      using k' by auto
    have q: "q \<in> set student'" and k: "k \<in> set (teacher st)"
      using qk by (auto dest: set_zip_leftD set_zip_rightD)
    have "x = 11 / 10" if xin: "x \<in> set (data k')" for x
    proof -
      obtain a b where ab: "(a, b) \<in> set (zip (data k) (data q))"
        and x: "x = m * a + (1 - m) * b"
        using xin e by auto
      have "a = 1" "b = 2"
        using ab q k q2 k1 by (auto dest: set_zip_leftD set_zip_rightD)
      then show ?thesis by (simp add: x m)
    qed
    moreover have "\<not> requires_grad k'" using e k k1 by simp
    ultimately show ?thesis by blast
  qed
  show ?thesis
    using it rg num by blast
qed

text \<open>
  The theorem at step 0 with momentum 0.9, a student whose update makes its values 2 and a
  teacher at 1 with its flag off: the teacher ends at 1.1, flag off.
\<close>

theorem teacher_ema_update_witness:
  "isfinite (Finite 3)
   \<and> getitem [9 / 10 :: real] (1 * 0 + int 0) = Inr (9 / 10)
   \<and> train_iteration
        (\<lparr> teacher_forward = (\<lambda>ps views. ()), student_forward = (\<lambda>ps views. ()),
          dino_loss = (\<lambda>l s t e. Inr (Finite 3, Suc l)),
          student_step = (\<lambda>gs ost e views sp tp l.
             Inr (map (\<lambda>p. p\<lparr>data := map (\<lambda>x. x + 1) (data p)\<rparr>) sp, ost)),
          float_str = (\<lambda>f. []) \<rparr> :: (unit, unit, unit, nat) capabilities)
        [1] [2] [9 / 10] 1 0
        (\<lparr> student = [\<lparr> name = ''w'', data = [1, 1], requires_grad = True \<rparr>],
          teacher = [\<lparr> name = ''w'', data = [1, 1], requires_grad = False \<rparr>],
          param_groups = [], optimizer_state = (), dino_loss_state = 0, stdout = [] \<rparr>)
        0 []
      = Continue
         (\<lparr> student = [\<lparr> name = ''w'', data = [2, 2], requires_grad = True \<rparr>],
          teacher = [\<lparr> name = ''w'', data = [11 / 10, 11 / 10], requires_grad = False \<rparr>],
          param_groups = [], optimizer_state = (), dino_loss_state = Suc 0, stdout = [] \<rparr>)"
proof -
  let ?env = "\<lparr> teacher_forward = (\<lambda>ps views. ()), student_forward = (\<lambda>ps views. ()),
          dino_loss = (\<lambda>l s t e. Inr (Finite 3, Suc l)),
          student_step = (\<lambda>gs ost e views sp tp l.
             Inr (map (\<lambda>p. p\<lparr>data := map (\<lambda>x. x + 1) (data p)\<rparr>) sp, ost)),
          float_str = (\<lambda>f. []) \<rparr> :: (unit, unit, unit, nat) capabilities"
  let ?st = "\<lparr> student = [\<lparr> name = ''w'', data = [1, 1], requires_grad = True \<rparr>],
          teacher = [\<lparr> name = ''w'', data = [1, 1], requires_grad = False \<rparr>],
          param_groups = [], optimizer_state = (), dino_loss_state = 0, stdout = [] \<rparr> :: (unit, nat) train_state"
  let ?s' = "[\<lparr> name = ''w'', data = [2, 2 :: real], requires_grad = True \<rparr>]"
  have h1: "set_schedules [1] [2] (1 * 0 + int 0) 0 (param_groups ?st) = Inr []"
    by simp
  have h2: "dino_loss ?env (dino_loss_state ?st) (student_forward ?env (student ?st) [])
           (teacher_forward ?env (teacher ?st) (take 2 [])) 0 = Inr (Finite 3, Suc 0)"
    by simp
  have h3: "isfinite (Finite 3)" by simp
  have h4: "student_step ?env [] (optimizer_state ?st) 0 [] (student ?st) (teacher ?st)
           (dino_loss_state ?st) = Inr (?s', ())"
    by simp
  have h5: "getitem [9 / 10 :: real] (1 * 0 + int 0) = Inr (9 / 10)"
    by (simp add: getitem_def)
  have h6: "list_all2 (\<lambda>q k. length (data q) = length (data k)) ?s' (teacher ?st)"
    by simp
  note t = teacher_ema_update [OF h1 h2 h3 h4 h5 h6]
  show ?thesis
    using t h5 by simp
qed

subsection \<open>The teacher over a whole run\<close>

lemma init_teacher_copy:
  assumes names: "map name teacher0 = map name student0"
    and dist: "distinct (map name student0)"
    and sizes: "list_all2 (\<lambda>k q. length (data k) = length (data q)) teacher0 student0"
  shows "init_teacher student0 teacher0 = Inr (map (\<lambda>q. q\<lparr>requires_grad := False\<rparr>) student0)"
proof -
  let ?sd = "state_dict student0"
  have len: "length teacher0 = length student0"
    using sizes by (rule list_all2_lengthD)
  have look: "map_of ?sd (name (teacher0 ! i)) = Some (data (student0 ! i))"
    if i: "i < length student0" for i
  proof -
    have "name (teacher0 ! i) = name (student0 ! i)"
      using names i len by (metis nth_map)
    moreover have "(name (student0 ! i), data (student0 ! i)) \<in> set ?sd"
      using i by (auto simp: state_dict_def)
    moreover have "distinct (map fst ?sd)"
      using dist by (simp add: state_dict_def o_def)
    ultimately show ?thesis by simp
  qed
  have keys: "set (map name teacher0) = set (map fst ?sd)"
    using names by (simp add: state_dict_def o_def)
  have ok: "\<not> (\<exists>p \<in> set teacher0.
                (case map_of ?sd (name p) of None \<Rightarrow> True
                 | Some v \<Rightarrow> length v \<noteq> length (data p)))"
  proof
    assume "\<exists>p \<in> set teacher0.
                (case map_of ?sd (name p) of None \<Rightarrow> True
                 | Some v \<Rightarrow> length v \<noteq> length (data p))"
    then obtain i where i: "i < length teacher0"
      and bad: "(case map_of ?sd (name (teacher0 ! i)) of None \<Rightarrow> True
                 | Some v \<Rightarrow> length v \<noteq> length (data (teacher0 ! i)))"
      by (auto simp: in_set_conv_nth)
    have "length (data (teacher0 ! i)) = length (data (student0 ! i))"
      using sizes i by (simp add: list_all2_conv_all_nth)
    then show False using bad look [of i] i len by simp
  qed
  have "map (\<lambda>p. case map_of ?sd (name p) of None \<Rightarrow> p | Some v \<Rightarrow> p\<lparr>data := v\<rparr>) teacher0
      = map (\<lambda>i. (teacher0 ! i)\<lparr>data := data (student0 ! i)\<rparr>) [0..<length teacher0]"
    by (rule nth_equalityI) (simp_all add: look len)
  then have ld: "load_state_dict teacher0 ?sd
      = Inr (map (\<lambda>i. (teacher0 ! i)\<lparr>data := data (student0 ! i)\<rparr>) [0..<length teacher0])"
    using keys ok by (simp add: load_state_dict_def)
  have "map (\<lambda>p. p\<lparr>requires_grad := False\<rparr>)
          (map (\<lambda>i. (teacher0 ! i)\<lparr>data := data (student0 ! i)\<rparr>) [0..<length teacher0])
      = map (\<lambda>q. q\<lparr>requires_grad := False\<rparr>) student0"
  proof (rule nth_equalityI)
    show "length (map (\<lambda>p. p\<lparr>requires_grad := False\<rparr>)
          (map (\<lambda>i. (teacher0 ! i)\<lparr>data := data (student0 ! i)\<rparr>) [0..<length teacher0]))
        = length (map (\<lambda>q. q\<lparr>requires_grad := False\<rparr>) student0)"
      by (simp add: len)
  next
    fix i
    assume "i < length (map (\<lambda>p. p\<lparr>requires_grad := False\<rparr>)
          (map (\<lambda>i. (teacher0 ! i)\<lparr>data := data (student0 ! i)\<rparr>) [0..<length teacher0]))"
    then have i: "i < length student0" by (simp add: len)
    have "name (teacher0 ! i) = name (student0 ! i)"
      using names i len by (metis nth_map)
    then show "map (\<lambda>p. p\<lparr>requires_grad := False\<rparr>)
          (map (\<lambda>i. (teacher0 ! i)\<lparr>data := data (student0 ! i)\<rparr>) [0..<length teacher0]) ! i
        = map (\<lambda>q. q\<lparr>requires_grad := False\<rparr>) student0 ! i"
      using i len by (simp add: param.equality)
  qed
  then show ?thesis
    by (simp add: init_teacher_def ld)
qed

lemma ema_replay_append:
  "ema_replay ms (xs @ ys) ks =
     (case ema_replay ms xs ks of Inl e \<Rightarrow> Inl e | Inr ks1 \<Rightarrow> ema_replay ms ys ks1)"
  by (induction ms xs ks rule: ema_replay.induct) (auto split: sum.splits)

lemma ema_replay_keeps:
  assumes "ema_replay ms steps ks = Inr ks'"
  shows "map requires_grad ks' = map requires_grad ks \<and> map name ks' = map name ks"
  using assms
proof (induction ms steps ks rule: ema_replay.induct)
  case (1 ms ks)
  then show ?case by simp
next
  case (2 ms it qs steps ks)
  from "2.prems" obtain m ks1 where
    m: "getitem ms it = Inr m"
    and u: "ema_update m qs ks = Inr ks1"
    and r: "ema_replay ms steps ks1 = Inr ks'"
    by (auto split: sum.splits)
  show ?case
    using "2.IH" [OF m u r] ema_update_keeps [OF u] by simp
qed

lemma train_iteration_continue:
  assumes "train_iteration env lrs wds ms n epoch st i images = Continue st'"
  shows "\<exists>m. getitem ms (n * epoch + int i) = Inr m
           \<and> ema_update m (student st') (teacher st) = Inr (teacher st')"
  using assms
  unfolding train_iteration_def Let_def
  by (auto split: sum.splits prod.splits if_splits)

lemma train_iteration_exit:
  assumes "train_iteration env lrs wds ms n epoch st i images = SysExit status st'"
  shows "teacher st' = teacher st \<and> student st' = student st"
  using assms
  unfolding train_iteration_def Let_def
  by (auto split: sum.splits prod.splits if_splits)

lemma last_steps_append:
  "last (a # map snd (xs @ ys)) = last (last (a # map snd xs) # map snd ys)"
  by (cases ys) (simp_all add: last_append)

lemma train_batches_replay:
  assumes "final_state (train_batches env lrs wds ms n epoch st i batches) = Some st'"
  shows "ema_replay ms (batches_steps env lrs wds ms n epoch st i batches) (teacher st)
           = Inr (teacher st')
    \<and> student st' = last (student st # map snd (batches_steps env lrs wds ms n epoch st i batches))"
  using assms
proof (induction batches arbitrary: st i)
  case Nil
  then show ?case by simp
next
  case (Cons images rest)
  show ?case
  proof (cases "train_iteration env lrs wds ms n epoch st i images")
    case (Continue st1)
    obtain m where m: "getitem ms (n * epoch + int i) = Inr m"
      and u: "ema_update m (student st1) (teacher st) = Inr (teacher st1)"
      using train_iteration_continue [OF Continue] by blast
    have "final_state (train_batches env lrs wds ms n epoch st1 (Suc i) rest) = Some st'"
      using Cons.prems Continue by simp
    from Cons.IH [OF this] show ?thesis
      using Continue m u by simp
  next
    case (SysExit status st1)
    then have "st1 = st'" using Cons.prems by simp
    then show ?thesis
      using SysExit train_iteration_exit [OF SysExit] by simp
  next
    case (Raise e)
    then show ?thesis using Cons.prems by simp
  qed
qed

lemma train_epochs_replay:
  assumes "final_state (train_epochs env lrs wds ms data_loader st epochs) = Some st'"
  shows "ema_replay ms (epochs_steps env lrs wds ms data_loader st epochs) (teacher st)
           = Inr (teacher st')
    \<and> student st' = last (student st # map snd (epochs_steps env lrs wds ms data_loader st epochs))"
  using assms
proof (induction epochs arbitrary: st)
  case Nil
  then show ?case by simp
next
  case (Cons epoch epochs)
  let ?n = "int (length (data_loader epoch))"
  let ?bs = "batches_steps env lrs wds ms ?n epoch st 0 (data_loader epoch)"
  show ?case
  proof (cases "train_one_epoch env lrs wds ms epoch st (data_loader epoch)")
    case (Continue st1)
    have "final_state (train_batches env lrs wds ms ?n epoch st 0 (data_loader epoch)) = Some st1"
      using Continue by (simp add: train_one_epoch_def)
    from train_batches_replay [OF this]
    have b: "ema_replay ms ?bs (teacher st) = Inr (teacher st1)"
      and bl: "student st1 = last (student st # map snd ?bs)"
      by simp_all
    have "final_state (train_epochs env lrs wds ms data_loader st1 epochs) = Some st'"
      using Cons.prems Continue by simp
    from Cons.IH [OF this]
    have r: "ema_replay ms (epochs_steps env lrs wds ms data_loader st1 epochs) (teacher st1)
           = Inr (teacher st')"
      and rl: "student st' = last (student st1
                 # map snd (epochs_steps env lrs wds ms data_loader st1 epochs))"
      by simp_all
    have e: "epochs_steps env lrs wds ms data_loader st (epoch # epochs)
        = ?bs @ epochs_steps env lrs wds ms data_loader st1 epochs"
      using Continue by simp
    show ?thesis
      unfolding e ema_replay_append last_steps_append
      using b r rl bl by simp
  next
    case (SysExit status st1)
    then have "final_state (train_batches env lrs wds ms ?n epoch st 0 (data_loader epoch))
        = Some st'"
      using Cons.prems by (simp add: train_one_epoch_def)
    from train_batches_replay [OF this] show ?thesis
      using SysExit by simp
  next
    case (Raise e)
    then show ?thesis using Cons.prems by simp
  qed
qed

text \<open>
  C7. For a student and a teacher of the same architecture (the same parameter names, each
  once, and the same sizes), \<open>train_dino\<close> makes the teacher an exact copy of the student
  before step 0, with gradient tracking off on every teacher parameter. From there, however
  many epochs and batches are run and whether the run goes on or exits, the teacher's
  parameters at the end are what the EMA rule alone makes of the initial ones: one
  application per completed iteration, in order, with the momentum schedule's entry at that
  iteration's global step and the student's parameters as that iteration's optimizer step
  left them (the last of which are the student's parameters at the end). Nothing else has
  written them, and gradient tracking is still off on every one of them.
\<close>

theorem teacher_only_ema:
  assumes "map name teacher0 = map name student0"
    and "distinct (map name student0)"
    and "list_all2 (\<lambda>k q. length (data k) = length (data q)) teacher0 student0"
    and "init_teacher student0 teacher0 = Inr (teacher st)"
    and "final_state (train_epochs env lrs wds ms data_loader st epochs) = Some st'"
  shows "init_teacher student0 teacher0
           = Inr (map (\<lambda>q. q\<lparr>requires_grad := False\<rparr>) student0)
    \<and> map data (teacher st) = map data student0
    \<and> map name (teacher st) = map name student0
    \<and> (\<forall>p \<in> set (teacher st). \<not> requires_grad p)
    \<and> ema_replay ms (epochs_steps env lrs wds ms data_loader st epochs) (teacher st)
         = Inr (teacher st')
    \<and> student st' = last (student st # map snd (epochs_steps env lrs wds ms data_loader st epochs))
    \<and> (\<forall>p \<in> set (teacher st'). \<not> requires_grad p)
    \<and> map name (teacher st') = map name (teacher st)"
proof -
  have init: "init_teacher student0 teacher0
           = Inr (map (\<lambda>q. q\<lparr>requires_grad := False\<rparr>) student0)"
    by (rule init_teacher_copy [OF assms(1-3)])
  then have t0: "teacher st = map (\<lambda>q. q\<lparr>requires_grad := False\<rparr>) student0"
    using assms(4) by simp
  have d: "map data (teacher st) = map data student0"
    and nm: "map name (teacher st) = map name student0"
    and off: "\<forall>p \<in> set (teacher st). \<not> requires_grad p"
    by (simp_all add: t0 o_def)
  have replay: "ema_replay ms (epochs_steps env lrs wds ms data_loader st epochs) (teacher st)
         = Inr (teacher st')"
    and lst: "student st' = last (student st
                # map snd (epochs_steps env lrs wds ms data_loader st epochs))"
    using train_epochs_replay [OF assms(5)] by simp_all
  have keep: "map requires_grad (teacher st') = map requires_grad (teacher st)"
      "map name (teacher st') = map name (teacher st)"
    using ema_replay_keeps [OF replay] by simp_all
  have "set (map requires_grad (teacher st')) = set (map requires_grad (teacher st))"
    by (simp only: keep(1))
  then have off': "\<forall>p \<in> set (teacher st'). \<not> requires_grad p"
    using off by (metis (no_types, lifting) image_iff set_map)
  show ?thesis
    using init d nm off replay lst off' keep(2) by blast
qed

text \<open>
  The theorem for a one-parameter student with values 3 and 4 and a run of two epochs of one
  batch each, with momenta 1/2 and 1/4, in which the student moves to 4 and 5 and then to 5
  and 6: the teacher starts at 3 and 4, is at 3.5 and 4.5 after step 0 and ends at 4.625 and
  5.625.
\<close>

theorem teacher_only_ema_witness:
  "init_teacher [\<lparr> name = ''w'', data = [3, 4], requires_grad = True \<rparr>]
       [\<lparr> name = ''w'', data = [0, 0], requires_grad = True \<rparr>]
     = Inr [\<lparr> name = ''w'', data = [3, 4], requires_grad = False \<rparr>]
   \<and> final_state (train_epochs
        (\<lparr> teacher_forward = (\<lambda>ps views. ()), student_forward = (\<lambda>ps views. ()),
          dino_loss = (\<lambda>l s t e. Inr (Finite 3, Suc l)),
          student_step = (\<lambda>gs ost e views sp tp l.
             Inr (map (\<lambda>p. p\<lparr>data := map (\<lambda>x. x + 1) (data p)\<rparr>) sp, ost)),
          float_str = (\<lambda>f. []) \<rparr> :: (unit, unit, unit, nat) capabilities)
        [1, 1] [2, 2] [1 / 2, 1 / 4] (\<lambda>epoch. [[]])
        (\<lparr> student = [\<lparr> name = ''w'', data = [3, 4], requires_grad = True \<rparr>],
          teacher = [\<lparr> name = ''w'', data = [3, 4], requires_grad = False \<rparr>],
          param_groups = [], optimizer_state = (), dino_loss_state = 0, stdout = [] \<rparr>)
        [0, 1])
      = Some
         (\<lparr> student = [\<lparr> name = ''w'', data = [5, 6], requires_grad = True \<rparr>],
          teacher = [\<lparr> name = ''w'', data = [37 / 8, 45 / 8], requires_grad = False \<rparr>],
          param_groups = [], optimizer_state = (), dino_loss_state = 2, stdout = [] \<rparr>)
   \<and> epochs_steps
        (\<lparr> teacher_forward = (\<lambda>ps views. ()), student_forward = (\<lambda>ps views. ()),
          dino_loss = (\<lambda>l s t e. Inr (Finite 3, Suc l)),
          student_step = (\<lambda>gs ost e views sp tp l.
             Inr (map (\<lambda>p. p\<lparr>data := map (\<lambda>x. x + 1) (data p)\<rparr>) sp, ost)),
          float_str = (\<lambda>f. []) \<rparr> :: (unit, unit, unit, nat) capabilities)
        [1, 1] [2, 2] [1 / 2, 1 / 4] (\<lambda>epoch. [[]])
        (\<lparr> student = [\<lparr> name = ''w'', data = [3, 4], requires_grad = True \<rparr>],
          teacher = [\<lparr> name = ''w'', data = [3, 4], requires_grad = False \<rparr>],
          param_groups = [], optimizer_state = (), dino_loss_state = 0, stdout = [] \<rparr>)
        [0, 1]
      = [(0, [\<lparr> name = ''w'', data = [4, 5], requires_grad = True \<rparr>]),
         (1, [\<lparr> name = ''w'', data = [5, 6], requires_grad = True \<rparr>])]
   \<and> ema_replay [1 / 2, 1 / 4]
        [(0, [\<lparr> name = ''w'', data = [4, 5], requires_grad = True \<rparr>]),
         (1, [\<lparr> name = ''w'', data = [5, 6], requires_grad = True \<rparr>])]
        [\<lparr> name = ''w'', data = [3, 4], requires_grad = False \<rparr>]
      = Inr [\<lparr> name = ''w'', data = [37 / 8, 45 / 8], requires_grad = False \<rparr>]"
proof -
  let ?env = "\<lparr> teacher_forward = (\<lambda>ps views. ()), student_forward = (\<lambda>ps views. ()),
          dino_loss = (\<lambda>l s t e. Inr (Finite 3, Suc l)),
          student_step = (\<lambda>gs ost e views sp tp l.
             Inr (map (\<lambda>p. p\<lparr>data := map (\<lambda>x. x + 1) (data p)\<rparr>) sp, ost)),
          float_str = (\<lambda>f. []) \<rparr> :: (unit, unit, unit, nat) capabilities"
  let ?before = "\<lparr> student = [\<lparr> name = ''w'', data = [3, 4], requires_grad = True \<rparr>],
          teacher = [\<lparr> name = ''w'', data = [3, 4], requires_grad = False \<rparr>],
          param_groups = [], optimizer_state = (), dino_loss_state = 0, stdout = [] \<rparr> :: (unit, nat) train_state"
  let ?after = "\<lparr> student = [\<lparr> name = ''w'', data = [5, 6], requires_grad = True \<rparr>],
          teacher = [\<lparr> name = ''w'', data = [37 / 8, 45 / 8], requires_grad = False \<rparr>],
          param_groups = [], optimizer_state = (), dino_loss_state = 2, stdout = [] \<rparr> :: (unit, nat) train_state"
  let ?s = "[\<lparr> name = ''w'', data = [3, 4 :: real], requires_grad = True \<rparr>]"
  let ?t = "[\<lparr> name = ''w'', data = [0, 0 :: real], requires_grad = True \<rparr>]"
  let ?ms = "[1 / 2, 1 / 4] :: real list"
  have h1: "map name ?t = map name ?s" by simp
  have h2: "distinct (map name ?s)" by simp
  have h3: "list_all2 (\<lambda>k q. length (data k) = length (data q)) ?t ?s" by simp
  have h4: "init_teacher ?s ?t = Inr (teacher ?before)"
    by (simp add: init_teacher_def load_state_dict_def state_dict_def)
  have h5: "final_state (train_epochs ?env [1, 1] [2, 2] ?ms (\<lambda>epoch. [[]]) ?before [0, 1])
      = Some ?after"
    by (simp add: train_one_epoch_def train_iteration_def getitem_def ema_tensor_def)
  have steps: "epochs_steps ?env [1, 1] [2, 2] ?ms (\<lambda>epoch. [[]]) ?before [0, 1]
      = [(0, [\<lparr> name = ''w'', data = [4, 5], requires_grad = True \<rparr>]),
         (1, [\<lparr> name = ''w'', data = [5, 6], requires_grad = True \<rparr>])]"
    by (simp add: train_one_epoch_def train_iteration_def getitem_def ema_tensor_def)
  note t = teacher_only_ema [OF h1 h2 h3 h4 h5]
  from t have "ema_replay ?ms (epochs_steps ?env [1, 1] [2, 2] ?ms (\<lambda>epoch. [[]]) ?before [0, 1])
      (teacher ?before) = Inr (teacher ?after)"
    by blast
  then have "ema_replay ?ms
        [(0, [\<lparr> name = ''w'', data = [4, 5], requires_grad = True \<rparr>]),
         (1, [\<lparr> name = ''w'', data = [5, 6], requires_grad = True \<rparr>])]
        [\<lparr> name = ''w'', data = [3, 4], requires_grad = False \<rparr>]
      = Inr [\<lparr> name = ''w'', data = [37 / 8, 45 / 8], requires_grad = False \<rparr>]"
    unfolding steps by simp
  then show ?thesis
    using h4 h5 steps by simp
qed

end
